theory Spec2Isabelle
  imports Main "HOL-Library.Multiset" "HOL-Library.AList"
begin

section \<open>Data model (src/types.ts)\<close>

text \<open>
  A schedule cell is a \<open>ShiftPatternId\<close>: one of the six work bands, the three
  leave codes, or the empty string. The three Japanese codes are written
  \<open>Furi\<close> (compensatory day off), \<open>Yuu\<close> (paid leave) and \<open>Kyuu\<close>
  (regular day off); \<open>Blank\<close> is the empty string.
\<close>

datatype ShiftPatternId = A | B | C | D | E | J | Furi | Yuu | Kyuu | Blank

text \<open>
  Positions: \<open>Enchou\<close> is the director, \<open>Shunin\<close> the chief, \<open>Hoikushi\<close> a
  caregiver, \<open>Paato\<close> a part-timer, \<open>Chouri\<close> a cook.
\<close>

datatype StaffPosition = Enchou | Shunin | Hoikushi | Paato | Chouri

datatype StaffShiftType = No_shift | Backup | Regular | Part_time | Cooking

datatype StaffRole = Infant | Toddler | Free | Cooking_role

text \<open>
  Modelled from the spec: \<open>getFormattedDate\<close> of lib/utils (not among the sources)
  builds the ISO key YYYY-MM-DD of a schedule row. The key is kept as the triple
  (year, month, day) that the text spells out.
\<close>

type_synonym DateKey = "int \<times> int \<times> int"

definition getFormattedDate :: "int \<Rightarrow> int \<Rightarrow> int \<Rightarrow> DateKey" where
  "getFormattedDate year month day = (year, month, day)"

record TimeRange =
  start_t :: string
  end_t :: string
  countAsShifts :: "ShiftPatternId list option"

record Staff =
  id_staff :: int
  name_staff :: string
  position :: StaffPosition
  shiftType :: StaffShiftType
  preferredShifts :: "ShiftPatternId list"
  weeklyDays :: int
  role :: "StaffRole option"
  incompatibleWith :: "int list"
  earlyShiftLimit :: "int option"
  saturdayOnly :: bool
  hasQualification :: bool
  defaultTimeRange :: "TimeRange option"

record Settings =
  saturdayStaffCount :: int
  saturdayShiftPattern :: ShiftPatternId

record Holiday =
  date_h :: DateKey
  name_h :: string

text \<open>
  The schedule is a JavaScript object from date keys to rows, and a row an object from
  staff ids to cells. Both are association lists, read through \<open>map_of\<close> and
  written through \<open>AList.update\<close> (which replaces the value of a key that is
  present and appends a new key), so that the keys of a row can be enumerated as
  \<open>countDayPattern\<close> does and a generated schedule is a value that can be printed.
\<close>

type_synonym Row = "(int \<times> ShiftPatternId) list"
type_synonym ShiftSchedule = "(DateKey \<times> Row) list"
type_synonym TimeRangeSchedule = "DateKey \<Rightarrow> (int \<Rightarrow> TimeRange option) option"

text \<open>The expression \<open>schedule[dateStr]?.[staffId]\<close>: \<open>None\<close> is undefined.\<close>

definition cell :: "ShiftSchedule \<Rightarrow> DateKey \<Rightarrow> int \<Rightarrow> ShiftPatternId option" where
  "cell sch k i = (case map_of sch k of None \<Rightarrow> None | Some row \<Rightarrow> map_of row i)"

text \<open>The keys of a row, each once, as \<open>for ... in\<close> enumerates them.\<close>

definition rowKeys :: "Row \<Rightarrow> int list" where
  "rowKeys row = remdups (map fst row)"

section \<open>Calendar\<close>

text \<open>
  The day number of a JavaScript \<open>new Date(year, monthIndex, day)\<close> relative to
  1970-01-01 in the proleptic Gregorian calendar: a year from 0 to 99 stands for
  1900 + year, and a month index outside 0..11 carries into the year.
\<close>

definition daysFromCivil :: "int \<Rightarrow> int \<Rightarrow> int \<Rightarrow> int" where
  "daysFromCivil y m d =
     (let y' = (if m \<le> 2 then y - 1 else y);
          era = y' div 400;
          yoe = y' - era * 400;
          mp = (m + 9) mod 12;
          doy = (153 * mp + 2) div 5 + d - 1;
          doe = yoe * 365 + yoe div 4 - yoe div 100 + doy
      in era * 146097 + doe - 719468)"

definition jsDateDayNumber :: "int \<Rightarrow> int \<Rightarrow> int \<Rightarrow> int" where
  "jsDateDayNumber year monthIndex day =
     (let yr = (if 0 \<le> year \<and> year \<le> 99 then 1900 + year else year);
          ym = yr + monthIndex div 12;
          mn = monthIndex mod 12
      in daysFromCivil ym (mn + 1) 1 + day - 1)"

text \<open>\<open>new Date(year, monthIndex, day).getDay()\<close>: 0 is Sunday, 6 is Saturday.\<close>

definition jsGetDay :: "int \<Rightarrow> int \<Rightarrow> int \<Rightarrow> int" where
  "jsGetDay year monthIndex day = (jsDateDayNumber year monthIndex day + 4) mod 7"

text \<open>
  Modelled from the spec: the calendar utilities \<open>getDaysInMonth\<close>, \<open>getDayOfWeek\<close>
  and \<open>isHoliday\<close> of lib/utils are not among the sources. The spec describes them
  as pure day-of-week, holiday lookup and date-key functions: the number of days of the
  month, the weekday of a day of the month, and membership of a date key in the holiday
  list.
\<close>

definition getDaysInMonth :: "int \<Rightarrow> int \<Rightarrow> int" where
  "getDaysInMonth year month = jsDateDayNumber year month 1 - jsDateDayNumber year (month - 1) 1"

definition getDayOfWeek :: "int \<Rightarrow> int \<Rightarrow> int \<Rightarrow> int" where
  "getDayOfWeek year month day = jsGetDay year (month - 1) day"

definition checkIsHoliday :: "DateKey \<Rightarrow> Holiday list \<Rightarrow> bool" where
  "checkIsHoliday dateStr holidays = list_ex (\<lambda>h. date_h h = dateStr) holidays"

section \<open>Constraint engine (src/lib/constraintChecker.ts)\<close>

datatype ViolationType = Hard | Soft

datatype ConstraintCode =
    J_TO_A | CONSECUTIVE_A | CONSECUTIVE_J | INCOMPATIBLE | WEEKLY_AJ_LIMIT
  | MIN_COUNT_A | MIN_COUNT_J | MIN_TOTAL
  | EARLY_LIMIT | FAIRNESS_A | FAIRNESS_J | FAIRNESS_SAT

text \<open>
  A violation carries its type and its code; the display message, a Japanese text
  computed from the same data, is left out.
\<close>

record ConstraintViolation =
  type_v :: ViolationType
  code_v :: ConstraintCode

record CandidateEvaluation =
  staffId :: int
  staffName :: string
  violations :: "ConstraintViolation list"
  isAssignable :: bool
  currentShift :: ShiftPatternId

record ConstraintContext =
  schedule :: ShiftSchedule
  staff :: "Staff list"
  holidays :: "Holiday list"
  settings :: Settings
  year :: int
  month :: int

subsection \<open>Helper functions\<close>

text \<open>\<open>x || ''\<close>: undefined and the empty string both give the empty string.\<close>

definition orBlank :: "ShiftPatternId option \<Rightarrow> ShiftPatternId" where
  "orBlank c = (case c of None \<Rightarrow> Blank | Some v \<Rightarrow> v)"

definition getShift :: "ConstraintContext \<Rightarrow> int \<Rightarrow> int \<Rightarrow> ShiftPatternId" where
  "getShift ctx day sid =
     orBlank (cell (schedule ctx) (getFormattedDate (year ctx) (month ctx) day) sid)"

definition isHoliday :: "ConstraintContext \<Rightarrow> int \<Rightarrow> bool" where
  "isHoliday ctx day =
     checkIsHoliday (getFormattedDate (year ctx) (month ctx) day) (holidays ctx)"

definition isSunday :: "ConstraintContext \<Rightarrow> int \<Rightarrow> bool" where
  "isSunday ctx day = (jsGetDay (year ctx) (month ctx - 1) day = 0)"

function prevWorkDayFrom :: "ConstraintContext \<Rightarrow> int \<Rightarrow> int" where
  "prevWorkDayFrom ctx d =
     (if d \<ge> 1 then
        (if \<not> isSunday ctx d \<and> \<not> isHoliday ctx d then d else prevWorkDayFrom ctx (d - 1))
      else 0)"
  by pat_completeness auto
termination
  by (relation "measure (\<lambda>(ctx, d). nat d)") auto

definition getPreviousWorkDay :: "ConstraintContext \<Rightarrow> int \<Rightarrow> int" where
  "getPreviousWorkDay ctx day = prevWorkDayFrom ctx (day - 1)"

function nextWorkDayFrom :: "ConstraintContext \<Rightarrow> int \<Rightarrow> int \<Rightarrow> int" where
  "nextWorkDayFrom ctx daysInMonth d =
     (if d \<le> daysInMonth then
        (if \<not> isSunday ctx d \<and> \<not> isHoliday ctx d then d
         else nextWorkDayFrom ctx daysInMonth (d + 1))
      else 0)"
  by pat_completeness auto
termination
  by (relation "measure (\<lambda>(ctx, n, d). nat (n + 1 - d))") auto

definition getNextWorkDay :: "ConstraintContext \<Rightarrow> int \<Rightarrow> int" where
  "getNextWorkDay ctx day =
     nextWorkDayFrom ctx (getDaysInMonth (year ctx) (month ctx)) (day + 1)"

definition countMonthlyPattern :: "ConstraintContext \<Rightarrow> int \<Rightarrow> ShiftPatternId \<Rightarrow> int" where
  "countMonthlyPattern ctx sid pattern =
     int (length (filter (\<lambda>d. getShift ctx d sid = pattern)
                    [1 .. getDaysInMonth (year ctx) (month ctx)]))"

definition countEarlyShifts :: "ConstraintContext \<Rightarrow> int \<Rightarrow> int" where
  "countEarlyShifts ctx sid =
     int (length (filter (\<lambda>d. getShift ctx d sid = A \<or> getShift ctx d sid = B)
                    [1 .. getDaysInMonth (year ctx) (month ctx)]))"

definition countRowPattern :: "Row \<Rightarrow> ShiftPatternId \<Rightarrow> int" where
  "countRowPattern row pattern =
     int (length (filter (\<lambda>k. map_of row k = Some pattern) (rowKeys row)))"

definition countDayPattern :: "ConstraintContext \<Rightarrow> int \<Rightarrow> ShiftPatternId \<Rightarrow> int" where
  "countDayPattern ctx day pattern =
     (case map_of (schedule ctx) (getFormattedDate (year ctx) (month ctx) day) of
        None \<Rightarrow> 0
      | Some row \<Rightarrow> countRowPattern row pattern)"

subsection \<open>Constraint check functions\<close>

definition hard :: "ConstraintCode \<Rightarrow> ConstraintViolation" where
  "hard c = \<lparr>type_v = Hard, code_v = c\<rparr>"

definition soft :: "ConstraintCode \<Rightarrow> ConstraintViolation" where
  "soft c = \<lparr>type_v = Soft, code_v = c\<rparr>"

definition checkJToAViolation ::
  "ConstraintContext \<Rightarrow> int \<Rightarrow> int \<Rightarrow> ShiftPatternId \<Rightarrow> ConstraintViolation option" where
  "checkJToAViolation ctx day sid shift =
     (if shift \<noteq> A then None
      else let prevDay = getPreviousWorkDay ctx day in
        if prevDay = 0 then None
        else if getShift ctx prevDay sid = J then Some (hard J_TO_A) else None)"

definition checkAToJViolation ::
  "ConstraintContext \<Rightarrow> int \<Rightarrow> int \<Rightarrow> ShiftPatternId \<Rightarrow> ConstraintViolation option" where
  "checkAToJViolation ctx day sid shift =
     (if shift \<noteq> J then None
      else let nextDay = getNextWorkDay ctx day in
        if nextDay = 0 then None
        else if getShift ctx nextDay sid = A then Some (hard J_TO_A) else None)"

definition consecutiveCode :: "ShiftPatternId \<Rightarrow> ConstraintCode" where
  "consecutiveCode shift = (if shift = A then CONSECUTIVE_A else CONSECUTIVE_J)"

definition checkConsecutiveViolation ::
  "ConstraintContext \<Rightarrow> int \<Rightarrow> int \<Rightarrow> ShiftPatternId \<Rightarrow> ConstraintViolation option" where
  "checkConsecutiveViolation ctx day sid shift =
     (if shift \<noteq> A \<and> shift \<noteq> J then None
      else let prevDay = getPreviousWorkDay ctx day in
        if prevDay > 0 \<and> getShift ctx prevDay sid = shift
        then Some (hard (consecutiveCode shift))
        else let nextDay = getNextWorkDay ctx day in
          if nextDay > 0 \<and> getShift ctx nextDay sid = shift
          then Some (hard (consecutiveCode shift))
          else None)"

text \<open>\<open>ctx.staff.find(s => s.id === staffId)\<close>: the first roster entry with the id.\<close>

definition findStaff :: "Staff list \<Rightarrow> int \<Rightarrow> Staff option" where
  "findStaff ss sid = find (\<lambda>s. id_staff s = sid) ss"

definition checkIncompatibleViolation ::
  "ConstraintContext \<Rightarrow> int \<Rightarrow> int \<Rightarrow> ShiftPatternId \<Rightarrow> ConstraintViolation option" where
  "checkIncompatibleViolation ctx day sid shift =
     (case findStaff (staff ctx) sid of
        None \<Rightarrow> None
      | Some targetStaff \<Rightarrow>
          if incompatibleWith targetStaff = [] then None
          else let dateStr = getFormattedDate (year ctx) (month ctx) day in
            if list_ex (\<lambda>incompatibleId. cell (schedule ctx) dateStr incompatibleId = Some shift)
                 (incompatibleWith targetStaff)
            then Some (hard INCOMPATIBLE) else None)"

definition checkWeeklyAJLimitViolation ::
  "ConstraintContext \<Rightarrow> int \<Rightarrow> int \<Rightarrow> ShiftPatternId \<Rightarrow> ConstraintViolation option" where
  "checkWeeklyAJLimitViolation ctx day sid shift =
     (if shift \<noteq> A \<and> shift \<noteq> J then None
      else let dayOfWeek = jsGetDay (year ctx) (month ctx - 1) day in
        if dayOfWeek = 0 then None
        else let startOfWeek = day - (dayOfWeek - 1);
                 endOfWeek = startOfWeek + 5;
                 cnt = int (length (filter
                   (\<lambda>d. \<not> (d < 1 \<or> d = day)
                        \<and> \<not> d > getDaysInMonth (year ctx) (month ctx)
                        \<and> (getShift ctx d sid = A \<or> getShift ctx d sid = J))
                   [startOfWeek .. endOfWeek]))
          in if cnt \<ge> 1 then Some (hard WEEKLY_AJ_LIMIT) else None)"

definition checkMinCountViolation ::
  "ConstraintContext \<Rightarrow> int \<Rightarrow> int \<Rightarrow> ShiftPatternId \<Rightarrow> ConstraintViolation option" where
  "checkMinCountViolation ctx day sid newShift =
     (let currentShift = getShift ctx day sid in
      if currentShift = A \<or> currentShift = J then
        (let currentCount = countDayPattern ctx day currentShift in
         if currentCount \<le> 2
         then Some (hard (if currentShift = A then MIN_COUNT_A else MIN_COUNT_J))
         else None)
      else None)"

definition checkEarlyLimitViolation ::
  "ConstraintContext \<Rightarrow> int \<Rightarrow> int \<Rightarrow> ShiftPatternId \<Rightarrow> ConstraintViolation option" where
  "checkEarlyLimitViolation ctx day sid shift =
     (if shift \<noteq> A \<and> shift \<noteq> B then None
      else case findStaff (staff ctx) sid of
        None \<Rightarrow> None
      | Some targetStaff \<Rightarrow>
          (case earlyShiftLimit targetStaff of
             None \<Rightarrow> None
           | Some limit \<Rightarrow>
               if countEarlyShifts ctx sid \<ge> limit then Some (soft EARLY_LIMIT) else None))"

text \<open>
  The fairness check compares the staff member's count with the mean count of the
  regular staff plus one. The source divides in floating point,
  \<open>myCount > sum / n + 1\<close>; the model compares the same integers after multiplying by
  the positive \<open>n\<close>.
\<close>

definition checkFairnessViolation ::
  "ConstraintContext \<Rightarrow> int \<Rightarrow> int \<Rightarrow> ShiftPatternId \<Rightarrow> ConstraintViolation option" where
  "checkFairnessViolation ctx day sid shift =
     (if shift \<noteq> A \<and> shift \<noteq> J then None
      else let regularStaff = filter (\<lambda>s. shiftType s = Regular) (staff ctx) in
        if regularStaff = [] then None
        else let counts = map (\<lambda>s. countMonthlyPattern ctx (id_staff s) shift) regularStaff;
                 total = sum_list counts;
                 n = int (length counts)
          in case findStaff (staff ctx) sid of
               None \<Rightarrow> None
             | Some targetStaff \<Rightarrow>
                 if shiftType targetStaff \<noteq> Regular then None
                 else let myCount = countMonthlyPattern ctx sid shift in
                   if myCount * n > total + n
                   then Some (soft (if shift = A then FAIRNESS_A else FAIRNESS_J))
                   else None)"

subsection \<open>Main API functions\<close>

text \<open>\<open>if (v) violations.push(v)\<close>, for each check in the order of the source.\<close>

definition pushed :: "ConstraintViolation option \<Rightarrow> ConstraintViolation list" where
  "pushed v = (case v of None \<Rightarrow> [] | Some x \<Rightarrow> [x])"

definition checkConstraints ::
  "ConstraintContext \<Rightarrow> int \<Rightarrow> int \<Rightarrow> ShiftPatternId \<Rightarrow> ConstraintViolation list" where
  "checkConstraints ctx day sid newShift =
     pushed (checkJToAViolation ctx day sid newShift)
     @ pushed (checkAToJViolation ctx day sid newShift)
     @ pushed (checkConsecutiveViolation ctx day sid newShift)
     @ pushed (checkIncompatibleViolation ctx day sid newShift)
     @ pushed (checkWeeklyAJLimitViolation ctx day sid newShift)
     @ pushed (checkMinCountViolation ctx day sid newShift)
     @ pushed (checkEarlyLimitViolation ctx day sid newShift)
     @ pushed (checkFairnessViolation ctx day sid newShift)"

definition hasHardViolation :: "ConstraintViolation list \<Rightarrow> bool" where
  "hasHardViolation vs = list_ex (\<lambda>v. type_v v = Hard) vs"

text \<open>
  \<open>Array.prototype.sort\<close> with a comparator is stable: an insertion sort that puts
  an element before the first later one it does not exceed.
\<close>

fun insertBy :: "('a \<Rightarrow> 'a \<Rightarrow> int) \<Rightarrow> 'a \<Rightarrow> 'a list \<Rightarrow> 'a list" where
  "insertBy cmp x [] = [x]"
| "insertBy cmp x (y # ys) =
     (if cmp x y \<le> 0 then x # y # ys else y # insertBy cmp x ys)"

definition sortBy :: "('a \<Rightarrow> 'a \<Rightarrow> int) \<Rightarrow> 'a list \<Rightarrow> 'a list" where
  "sortBy cmp xs = foldr (insertBy cmp) xs []"

definition eligibleStaff :: "ConstraintContext \<Rightarrow> Staff list" where
  "eligibleStaff ctx = filter (\<lambda>s. shiftType s = Regular \<or> shiftType s = Backup) (staff ctx)"

definition evaluateOne ::
  "ConstraintContext \<Rightarrow> int \<Rightarrow> ShiftPatternId \<Rightarrow> Staff \<Rightarrow> CandidateEvaluation" where
  "evaluateOne ctx day targetShift s =
     (let vs = checkConstraints ctx day (id_staff s) targetShift in
      \<lparr>staffId = id_staff s, staffName = name_staff s, violations = vs,
       isAssignable = (\<not> hasHardViolation vs),
       currentShift = getShift ctx day (id_staff s)\<rparr>)"

text \<open>The loop body's two \<open>continue\<close> tests: who is skipped.\<close>

definition skipCandidate :: "ConstraintContext \<Rightarrow> int \<Rightarrow> ShiftPatternId \<Rightarrow> Staff \<Rightarrow> bool" where
  "skipCandidate ctx day targetShift s =
     (let currentShift = getShift ctx day (id_staff s) in
      currentShift = targetShift \<or> (currentShift = Yuu \<or> currentShift = Furi))"

definition candidateOrder :: "CandidateEvaluation \<Rightarrow> CandidateEvaluation \<Rightarrow> int" where
  "candidateOrder a b =
     (if isAssignable a \<noteq> isAssignable b then (if isAssignable a then - 1 else 1)
      else int (length (violations a)) - int (length (violations b)))"

definition evaluateCandidates ::
  "ConstraintContext \<Rightarrow> int \<Rightarrow> ShiftPatternId \<Rightarrow> CandidateEvaluation list" where
  "evaluateCandidates ctx day targetShift =
     sortBy candidateOrder
       (map (evaluateOne ctx day targetShift)
          (filter (\<lambda>s. \<not> skipCandidate ctx day targetShift s) (eligibleStaff ctx)))"

subsection \<open>Swap suggestions\<close>

record SwapStaff =
  id_w :: int
  name_w :: string
  currentShift_w :: ShiftPatternId

text \<open>
  The two texts of a suggestion are templates; the model keeps the values that fill
  them: both names and shifts for the description (the second shift shown as the
  regular day off when empty) and the shortage pattern for the benefit.
\<close>

record SwapSuggestion =
  staffA :: SwapStaff
  staffB :: SwapStaff
  description :: "string \<times> ShiftPatternId \<times> string \<times> ShiftPatternId"
  benefit :: ShiftPatternId

definition mkSuggestion ::
  "Staff \<Rightarrow> ShiftPatternId \<Rightarrow> Staff \<Rightarrow> ShiftPatternId \<Rightarrow> ShiftPatternId \<Rightarrow> SwapSuggestion" where
  "mkSuggestion candidateA currentShiftA candidateB currentShiftB shortagePattern =
     \<lparr>staffA = \<lparr>id_w = id_staff candidateA, name_w = name_staff candidateA,
                 currentShift_w = currentShiftA\<rparr>,
      staffB = \<lparr>id_w = id_staff candidateB, name_w = name_staff candidateB,
                 currentShift_w = currentShiftB\<rparr>,
      description = (name_staff candidateA, currentShiftA, name_staff candidateB,
                     (if currentShiftB = Blank then Kyuu else currentShiftB)),
      benefit = shortagePattern\<rparr>"

text \<open>
  The inner loop over \<open>candidateB\<close>. The flag of the result says that the third
  suggestion was pushed and the function returned from inside the loop.
\<close>

fun swapInner ::
  "ConstraintContext \<Rightarrow> int \<Rightarrow> ShiftPatternId \<Rightarrow> Staff \<Rightarrow> ShiftPatternId \<Rightarrow> Staff list
     \<Rightarrow> SwapSuggestion list \<Rightarrow> SwapSuggestion list \<times> bool" where
  "swapInner ctx day shortagePattern candidateA currentShiftA [] suggestions =
     (suggestions, False)"
| "swapInner ctx day shortagePattern candidateA currentShiftA (candidateB # rest) suggestions =
     (if id_staff candidateA = id_staff candidateB
      then swapInner ctx day shortagePattern candidateA currentShiftA rest suggestions
      else let currentShiftB =
                 orBlank (cell (schedule ctx) (getFormattedDate (year ctx) (month ctx) day)
                            (id_staff candidateB))
        in if currentShiftB = Yuu \<or> currentShiftB = Furi \<or> currentShiftB = currentShiftA
           then swapInner ctx day shortagePattern candidateA currentShiftA rest suggestions
           else if hasHardViolation (checkConstraints ctx day (id_staff candidateB) currentShiftA)
           then swapInner ctx day shortagePattern candidateA currentShiftA rest suggestions
           else let suggestions' = suggestions @
                      [mkSuggestion candidateA currentShiftA candidateB currentShiftB shortagePattern]
             in if length suggestions' \<ge> 3 then (suggestions', True)
                else swapInner ctx day shortagePattern candidateA currentShiftA rest suggestions')"

fun swapOuter ::
  "ConstraintContext \<Rightarrow> int \<Rightarrow> ShiftPatternId \<Rightarrow> Staff list \<Rightarrow> Staff list
     \<Rightarrow> SwapSuggestion list \<Rightarrow> SwapSuggestion list" where
  "swapOuter ctx day shortagePattern regularStaff [] suggestions = suggestions"
| "swapOuter ctx day shortagePattern regularStaff (candidateA # rest) suggestions =
     (let currentShiftA =
            orBlank (cell (schedule ctx) (getFormattedDate (year ctx) (month ctx) day)
                       (id_staff candidateA))
      in if currentShiftA = shortagePattern \<or> currentShiftA = Yuu \<or> currentShiftA = Furi
            \<or> currentShiftA = Kyuu \<or> currentShiftA = Blank
         then swapOuter ctx day shortagePattern regularStaff rest suggestions
         else if hasHardViolation (checkConstraints ctx day (id_staff candidateA) shortagePattern)
         then swapOuter ctx day shortagePattern regularStaff rest suggestions
         else case swapInner ctx day shortagePattern candidateA currentShiftA regularStaff
                     suggestions of
                (suggestions', True) \<Rightarrow> suggestions'
              | (suggestions', False) \<Rightarrow>
                  swapOuter ctx day shortagePattern regularStaff rest suggestions')"

definition findSwapSuggestions ::
  "ConstraintContext \<Rightarrow> int \<Rightarrow> ShiftPatternId \<Rightarrow> SwapSuggestion list" where
  "findSwapSuggestions ctx day shortagePattern =
     swapOuter ctx day shortagePattern (eligibleStaff ctx) (eligibleStaff ctx) []"

section \<open>Shift counting utilities (lib/shiftCountUtils)\<close>

text \<open>\<open>timeRangeSchedule[dateStr]?.[s.id]?.countAsShifts?.includes(pattern)\<close>.\<close>

definition creditedTo :: "TimeRangeSchedule \<Rightarrow> DateKey \<Rightarrow> int \<Rightarrow> ShiftPatternId \<Rightarrow> bool" where
  "creditedTo trs dateStr sid pattern =
     (case trs dateStr of
        None \<Rightarrow> False
      | Some m \<Rightarrow>
          (case m sid of
             None \<Rightarrow> False
           | Some timeRange \<Rightarrow>
               (case countAsShifts timeRange of
                  None \<Rightarrow> False
                | Some ps \<Rightarrow> pattern \<in> set ps)))"

definition countEffectiveShift ::
  "Staff list \<Rightarrow> ShiftSchedule \<Rightarrow> TimeRangeSchedule \<Rightarrow> DateKey \<Rightarrow> ShiftPatternId \<Rightarrow> bool \<Rightarrow> int" where
  "countEffectiveShift ss sch trs dateStr pattern qualifiedOnly =
     int (length (filter
       (\<lambda>s. if shiftType s = Part_time then
               (if qualifiedOnly \<and> \<not> hasQualification s then False
                else creditedTo trs dateStr (id_staff s) pattern)
             else if qualifiedOnly \<and> \<not> hasQualification s then False
             else cell sch dateStr (id_staff s) = Some pattern) ss))"

definition countQualifiedPartTimers ::
  "Staff list \<Rightarrow> TimeRangeSchedule \<Rightarrow> DateKey \<Rightarrow> ShiftPatternId \<Rightarrow> int" where
  "countQualifiedPartTimers ss trs dateStr pattern =
     int (length (filter
       (\<lambda>s. if shiftType s \<noteq> Part_time \<or> \<not> hasQualification s then False
             else creditedTo trs dateStr (id_staff s) pattern) ss))"

section \<open>Shift generator (class ShiftGenerator)\<close>

text \<open>
  The fields of the object. Only \<open>schedule_g\<close> is ever assigned after the
  constructor; every method takes the object and returns it updated.
\<close>

record ShiftGenerator =
  staff_g :: "Staff list"
  schedule_g :: ShiftSchedule
  timeRangeSchedule_g :: TimeRangeSchedule
  holidays_g :: "Holiday list"
  settings_g :: Settings
  year_g :: int
  month_g :: int
  daysInMonth :: int

text \<open>
  Reading a property of \<open>undefined\<close> raises a TypeError: the expression
  \<open>this.schedule[dateStr][id]\<close> does when the row of the date is missing. A method
  that contains such an expression, or the unbounded loop, returns a result:
  \<open>None\<close> when it does not return, \<open>Some (Inl TypeError)\<close> when it raises,
  \<open>Some (Inr x)\<close> when it returns \<open>x\<close>.
\<close>

datatype TypeError = TypeError

type_synonym 'a result = "(TypeError + 'a) option"

definition ret :: "'a \<Rightarrow> 'a result" where
  "ret x = Some (Inr x)"

definition raise :: "'a result" where
  "raise = Some (Inl TypeError)"

definition bindR :: "'a result \<Rightarrow> ('a \<Rightarrow> 'b result) \<Rightarrow> 'b result" where
  "bindR m f = (case m of None \<Rightarrow> None | Some (Inl e) \<Rightarrow> Some (Inl e) | Some (Inr x) \<Rightarrow> f x)"

fun foldR :: "('a \<Rightarrow> 's \<Rightarrow> 's result) \<Rightarrow> 'a list \<Rightarrow> 's \<Rightarrow> 's result" where
  "foldR f [] s = ret s"
| "foldR f (x # xs) s = bindR (f x s) (foldR f xs)"

subsection \<open>The random source\<close>

text \<open>
  \<open>Math.random\<close> is read only inside sort comparators. One comparator ignores its
  arguments, so the sort leaves an arbitrary permutation; the other orders by a count and
  answers at random on a tie, so the sort leaves the list ordered by the count with
  ties in an arbitrary order. The random source is a parameter of the model: for each
  call site (day, pattern, first or second pass) a list of numbers, which
  \<open>shuffle\<close> turns into a permutation by inserting each element at the position
  the next number names. Every permutation arises from some list of numbers.
\<close>

datatype RandomCall = SaturdayShuffle int | DefaultSort int ShiftPatternId bool

type_synonym Random = "RandomCall \<Rightarrow> nat list"

fun insertAt :: "nat \<Rightarrow> 'a \<Rightarrow> 'a list \<Rightarrow> 'a list" where
  "insertAt 0 x ys = x # ys"
| "insertAt (Suc n) x [] = [x]"
| "insertAt (Suc n) x (y # ys) = y # insertAt n x ys"

fun shuffle :: "nat list \<Rightarrow> 'a list \<Rightarrow> 'a list" where
  "shuffle ks [] = []"
| "shuffle [] (x # xs) = x # xs"
| "shuffle (k # ks) (x # xs) = insertAt k x (shuffle ks xs)"

subsection \<open>Constructor\<close>

definition initialCell :: "ShiftSchedule \<Rightarrow> DateKey \<Rightarrow> Staff \<Rightarrow> ShiftPatternId" where
  "initialCell currentSchedule dateStr s =
     (let existingShift = cell currentSchedule dateStr (id_staff s) in
      if shiftType s = Part_time then orBlank existingShift
      else if existingShift = Some Yuu \<or> existingShift = Some Furi then orBlank existingShift
      else Blank)"

definition initialRow :: "ShiftSchedule \<Rightarrow> DateKey \<Rightarrow> Staff list \<Rightarrow> Row" where
  "initialRow currentSchedule dateStr ss =
     fold (\<lambda>s row. AList.update (id_staff s) (initialCell currentSchedule dateStr s) row) ss []"

definition newShiftGenerator ::
  "Staff list \<Rightarrow> Holiday list \<Rightarrow> int \<Rightarrow> int \<Rightarrow> Settings \<Rightarrow> ShiftSchedule \<Rightarrow> TimeRangeSchedule
     \<Rightarrow> ShiftGenerator" where
  "newShiftGenerator ss hs y m st currentSchedule trs =
     \<lparr>staff_g = ss,
      schedule_g =
        fold (\<lambda>d sch. AList.update (getFormattedDate y m d)
                         (initialRow currentSchedule (getFormattedDate y m d) ss) sch)
          [1 .. getDaysInMonth y m] [],
      timeRangeSchedule_g = trs, holidays_g = hs, settings_g = st,
      year_g = y, month_g = m, daysInMonth = getDaysInMonth y m\<rparr>"

subsection \<open>Helpers\<close>

definition dateOf :: "ShiftGenerator \<Rightarrow> int \<Rightarrow> DateKey" where
  "dateOf g day = getFormattedDate (year_g g) (month_g g) day"

text \<open>\<open>if (!this.schedule[dateStr]) this.schedule[dateStr] = {}\<close>.\<close>

definition ensureRow :: "ShiftSchedule \<Rightarrow> DateKey \<Rightarrow> ShiftSchedule" where
  "ensureRow sch dateStr =
     (case map_of sch dateStr of None \<Rightarrow> AList.update dateStr [] sch | Some row \<Rightarrow> sch)"

text \<open>\<open>this.schedule[dateStr][id] = v\<close>, which raises when the row is missing.\<close>

definition writeCell :: "ShiftSchedule \<Rightarrow> DateKey \<Rightarrow> int \<Rightarrow> ShiftPatternId \<Rightarrow> ShiftSchedule result" where
  "writeCell sch dateStr sid v =
     (case map_of sch dateStr of
        None \<Rightarrow> raise
      | Some row \<Rightarrow> ret (AList.update dateStr (AList.update sid v row) sch))"

text \<open>The same assignment after \<open>ensureRow\<close>, where the row is there.\<close>

definition putCell :: "ShiftSchedule \<Rightarrow> DateKey \<Rightarrow> int \<Rightarrow> ShiftPatternId \<Rightarrow> ShiftSchedule" where
  "putCell sch dateStr sid v =
     (case map_of sch dateStr of
        None \<Rightarrow> AList.update dateStr [(sid, v)] sch
      | Some row \<Rightarrow> AList.update dateStr (AList.update sid v row) sch)"

definition isPartTimer :: "ShiftGenerator \<Rightarrow> int \<Rightarrow> bool" where
  "isPartTimer g sid =
     (case findStaff (staff_g g) sid of None \<Rightarrow> False | Some s \<Rightarrow> shiftType s = Part_time)"

definition setShift :: "ShiftGenerator \<Rightarrow> int \<Rightarrow> int \<Rightarrow> ShiftPatternId \<Rightarrow> ShiftGenerator" where
  "setShift g day sid shift =
     (let dateStr = dateOf g day;
          sch = ensureRow (schedule_g g) dateStr;
          current = cell sch dateStr sid
      in if current = Some Yuu \<or> current = Some Furi then g\<lparr>schedule_g := sch\<rparr>
         else if isPartTimer g sid \<and> current \<noteq> Some Blank \<and> current \<noteq> Some Kyuu
         then g\<lparr>schedule_g := sch\<rparr>
         else g\<lparr>schedule_g := putCell sch dateStr sid shift\<rparr>)"

definition getShift_gen :: "ShiftGenerator \<Rightarrow> int \<Rightarrow> int \<Rightarrow> ShiftPatternId" where
  "getShift_gen g day sid = orBlank (cell (schedule_g g) (dateOf g day) sid)"

definition isHoliday_gen :: "ShiftGenerator \<Rightarrow> int \<Rightarrow> bool" where
  "isHoliday_gen g day =
     (getDayOfWeek (year_g g) (month_g g) day = 0
      \<or> checkIsHoliday (dateOf g day) (holidays_g g))"

definition isSaturday :: "ShiftGenerator \<Rightarrow> int \<Rightarrow> bool" where
  "isSaturday g day =
     (getDayOfWeek (year_g g) (month_g g) day = 6 \<and> \<not> isHoliday_gen g day)"

function prevWorkDayFrom_gen :: "ShiftGenerator \<Rightarrow> int \<Rightarrow> int" where
  "prevWorkDayFrom_gen g d =
     (if d > 0 then (if \<not> isHoliday_gen g d then d else prevWorkDayFrom_gen g (d - 1))
      else 0)"
  by pat_completeness auto
termination
  by (relation "measure (\<lambda>(g, d). nat d)") auto

definition getPreviousWorkDay_gen :: "ShiftGenerator \<Rightarrow> int \<Rightarrow> int" where
  "getPreviousWorkDay_gen g day = prevWorkDayFrom_gen g (day - 1)"

text \<open>A cell that is truthy and none of the three leave codes.\<close>

definition isWorking :: "ShiftPatternId option \<Rightarrow> bool" where
  "isWorking shift =
     (shift \<noteq> None \<and> shift \<noteq> Some Blank
      \<and> shift \<noteq> Some Kyuu \<and> shift \<noteq> Some Furi \<and> shift \<noteq> Some Yuu)"

definition countWorkingStaff :: "ShiftGenerator \<Rightarrow> int \<Rightarrow> int" where
  "countWorkingStaff g day =
     int (length (filter
       (\<lambda>s. if shiftType s = Cooking \<or> position s = Enchou then False
             else isWorking (cell (schedule_g g) (dateOf g day) (id_staff s)))
       (staff_g g)))"

definition countPattern :: "ShiftGenerator \<Rightarrow> int \<Rightarrow> ShiftPatternId \<Rightarrow> int" where
  "countPattern g day pattern =
     countEffectiveShift (staff_g g) (schedule_g g) (timeRangeSchedule_g g) (dateOf g day)
       pattern True"

definition countQualifiedPartTimersForShift :: "ShiftGenerator \<Rightarrow> int \<Rightarrow> ShiftPatternId \<Rightarrow> int" where
  "countQualifiedPartTimersForShift g day shiftPattern =
     countQualifiedPartTimers (staff_g g) (timeRangeSchedule_g g) (dateOf g day) shiftPattern"

definition hasIncompatibleConflict :: "ShiftGenerator \<Rightarrow> int \<Rightarrow> int \<Rightarrow> ShiftPatternId \<Rightarrow> bool" where
  "hasIncompatibleConflict g day sid shift =
     (case findStaff (staff_g g) sid of
        None \<Rightarrow> False
      | Some s \<Rightarrow>
          if incompatibleWith s = [] then False
          else list_ex (\<lambda>incompatibleId.
                 cell (schedule_g g) (dateOf g day) incompatibleId = Some shift)
                 (incompatibleWith s))"

definition isEarlyShiftLimitExceeded :: "ShiftGenerator \<Rightarrow> int \<Rightarrow> bool" where
  "isEarlyShiftLimitExceeded g sid =
     (case findStaff (staff_g g) sid of
        None \<Rightarrow> False
      | Some s \<Rightarrow>
          (case earlyShiftLimit s of
             None \<Rightarrow> False
           | Some limit \<Rightarrow>
               int (length (filter
                 (\<lambda>d. getShift_gen g d sid = A \<or> getShift_gen g d sid = B)
                 [1 .. daysInMonth g])) \<ge> limit))"

definition checkConsecutiveShiftViolation ::
  "ShiftGenerator \<Rightarrow> int \<Rightarrow> int \<Rightarrow> ShiftPatternId \<Rightarrow> bool" where
  "checkConsecutiveShiftViolation g day sid shift =
     (let prevDay = getPreviousWorkDay_gen g day in
      if prevDay = 0 then False
      else let prevShift = getShift_gen g prevDay sid in
        if shift = A \<and> prevShift = A then True
        else if shift = J \<and> prevShift = J then True
        else False)"

definition countTotalShifts :: "ShiftGenerator \<Rightarrow> int \<Rightarrow> ShiftPatternId \<Rightarrow> int" where
  "countTotalShifts g sid pattern =
     int (length (filter (\<lambda>d. getShift_gen g d sid = pattern) [1 .. daysInMonth g]))"

definition hasWeeklyAJLimitConflict :: "ShiftGenerator \<Rightarrow> int \<Rightarrow> int \<Rightarrow> bool" where
  "hasWeeklyAJLimitConflict g day sid =
     (let dayOfWeek = jsGetDay (year_g g) (month_g g - 1) day in
      if dayOfWeek = 0 then False
      else let startOfWeek = day - (dayOfWeek - 1);
               cnt = int (length (filter
                 (\<lambda>d. \<not> d < 1 \<and> (getShift_gen g d sid = A \<or> getShift_gen g d sid = J))
                 [startOfWeek .. day - 1]))
        in cnt \<ge> 1)"

text \<open>
  The block of \<open>continue\<close> tests that phases 4, 6 and 7 run before assigning a
  pattern to a staff member; \<open>checkWeekly\<close> says whether the weekly limit is
  among them.
\<close>

definition constraintsBlock ::
  "ShiftGenerator \<Rightarrow> int \<Rightarrow> int \<Rightarrow> ShiftPatternId \<Rightarrow> bool \<Rightarrow> bool" where
  "constraintsBlock g d sid pattern checkWeekly =
     ((pattern = A \<and>
         (isEarlyShiftLimitExceeded g sid
          \<or> checkConsecutiveShiftViolation g d sid A
          \<or> (checkWeekly \<and> hasWeeklyAJLimitConflict g d sid)
          \<or> (let prevDay = getPreviousWorkDay_gen g d in
               prevDay > 0 \<and> getShift_gen g prevDay sid = J)))
      \<or> (pattern = J \<and>
         (checkConsecutiveShiftViolation g d sid J
          \<or> (checkWeekly \<and> hasWeeklyAJLimitConflict g d sid)))
      \<or> hasIncompatibleConflict g d sid pattern)"

text \<open>The comparator \<open>count(a) + ... - (count(b) + ...)\<close> over the bands A, B and J.\<close>

definition burden :: "ShiftGenerator \<Rightarrow> Staff \<Rightarrow> int" where
  "burden g s =
     countTotalShifts g (id_staff s) A + countTotalShifts g (id_staff s) B
     + countTotalShifts g (id_staff s) J"

definition byBurden :: "ShiftGenerator \<Rightarrow> Staff \<Rightarrow> Staff \<Rightarrow> int" where
  "byBurden g a b = burden g a - burden g b"

definition byPattern :: "ShiftGenerator \<Rightarrow> ShiftPatternId \<Rightarrow> Staff \<Rightarrow> Staff \<Rightarrow> int" where
  "byPattern g pattern a b =
     countTotalShifts g (id_staff a) pattern - countTotalShifts g (id_staff b) pattern"

subsection \<open>Phases 1 to 3\<close>

definition phase1_Director :: "ShiftGenerator \<Rightarrow> ShiftGenerator" where
  "phase1_Director g =
     (case find (\<lambda>s. position s = Enchou) (staff_g g) of
        None \<Rightarrow> g
      | Some director \<Rightarrow>
          fold (\<lambda>d g'. setShift g' d (id_staff director) Kyuu) [1 .. daysInMonth g] g)"

definition phase2_Chief :: "ShiftGenerator \<Rightarrow> ShiftGenerator" where
  "phase2_Chief g =
     (case find (\<lambda>s. position s = Shunin) (staff_g g) of None \<Rightarrow> g | Some chief \<Rightarrow> g)"

definition phase2_5_Day :: "Staff list \<Rightarrow> int \<Rightarrow> ShiftGenerator \<times> nat \<Rightarrow> ShiftGenerator \<times> nat" where
  "phase2_5_Day cooks d st =
     (case st of (g, saturdayIndex) \<Rightarrow>
        if isHoliday_gen g d
        then (fold (\<lambda>c g'. setShift g' d (id_staff c) Kyuu) cooks g, saturdayIndex)
        else if isSaturday g d
        then (let workingCookIndex = saturdayIndex mod length cooks in
              (fold (\<lambda>(idx, c) g'.
                      if idx = workingCookIndex then setShift g' d (id_staff c) B
                      else setShift g' d (id_staff c) Kyuu)
                 (enumerate 0 cooks) g,
               saturdayIndex + 1))
        else (fold (\<lambda>c g'. setShift g' d (id_staff c) B) cooks g, saturdayIndex))"

definition phase2_5_Cooking :: "ShiftGenerator \<Rightarrow> ShiftGenerator" where
  "phase2_5_Cooking g =
     (let cooks = filter (\<lambda>s. shiftType s = Cooking) (staff_g g) in
      if cooks = [] then g
      else fst (fold (phase2_5_Day cooks) [1 .. daysInMonth g] (g, 0)))"

text \<open>
  The search for the weekday of the compensatory day off: offsets 5 down to 1 before
  the Saturday, keeping the day with the fewest leave entries. The state is
  \<open>(bestDay, minOffCount)\<close>.
\<close>

definition bestOffDay :: "ShiftGenerator \<Rightarrow> int \<Rightarrow> int \<Rightarrow> int" where
  "bestOffDay g day sid =
     fst (fold
       (\<lambda>offset (bestDay, minOffCount).
          let targetDay = day - offset in
          if targetDay < 1 then (bestDay, minOffCount)
          else if isHoliday_gen g targetDay then (bestDay, minOffCount)
          else let currentShift = getShift_gen g targetDay sid in
            if currentShift \<noteq> Blank \<and> currentShift \<noteq> Kyuu then (bestDay, minOffCount)
            else let totalOffCount = countPattern g targetDay Furi + countPattern g targetDay Yuu in
              if totalOffCount < minOffCount then (targetDay, totalOffCount)
              else (bestDay, minOffCount))
       [5, 4, 3, 2, 1] (- 1, 999))"

definition phase3_Select ::
  "int \<Rightarrow> Staff \<Rightarrow> ShiftGenerator \<times> (int \<Rightarrow> int) \<Rightarrow> ShiftGenerator \<times> (int \<Rightarrow> int)" where
  "phase3_Select day s st =
     (case st of (g, satCounts) \<Rightarrow>
        let g1 = setShift g day (id_staff s) (saturdayShiftPattern (settings_g g));
            satCounts' = satCounts(id_staff s := satCounts (id_staff s) + 1);
            bestDay = bestOffDay g1 day (id_staff s)
        in if bestDay \<noteq> - 1 then (setShift g1 bestDay (id_staff s) Furi, satCounts')
           else (g1, satCounts'))"

definition phase3_Day ::
  "Random \<Rightarrow> Staff list \<Rightarrow> int \<Rightarrow> ShiftGenerator \<times> (int \<Rightarrow> int) \<Rightarrow> ShiftGenerator \<times> (int \<Rightarrow> int)" where
  "phase3_Day rnd qualifiedRegulars day st =
     (case st of (g, satCounts) \<Rightarrow>
        let partTimeCount = int (length (filter
              (\<lambda>s. shiftType s = Part_time
                    \<and> isWorking (Some (getShift_gen g day (id_staff s)))) (staff_g g)));
            targetRegularCount = max 0 (3 - partTimeCount);
            candidates = sortBy (\<lambda>a b. satCounts (id_staff a) - satCounts (id_staff b))
                           (shuffle (rnd (SaturdayShuffle day)) qualifiedRegulars);
            selected = take (nat targetRegularCount) candidates
        in case fold (phase3_Select day) selected (g, satCounts) of
             (g2, satCounts2) \<Rightarrow>
               (fold (\<lambda>s g'.
                   if position s = Enchou \<or> shiftType s = Cooking \<or> shiftType s = Part_time
                   then g'
                   else if find (\<lambda>sel. id_staff sel = id_staff s) selected = None
                   then setShift g' day (id_staff s) Kyuu
                   else g')
                 (staff_g g2) g2,
                satCounts2))"

definition phase3_Saturday :: "Random \<Rightarrow> ShiftGenerator \<Rightarrow> ShiftGenerator" where
  "phase3_Saturday rnd g =
     (let saturdays = filter (isSaturday g) [1 .. daysInMonth g];
          qualifiedRegulars = filter
            (\<lambda>s. hasQualification s \<and> shiftType s = Regular \<and> position s \<noteq> Enchou) (staff_g g)
      in fst (fold (phase3_Day rnd qualifiedRegulars) saturdays (g, \<lambda>i. 0)))"

subsection \<open>Phase 4: regular staff on weekdays\<close>

text \<open>The comparator \<open>sortByPatternCount(pattern)\<close>: the count, then the burden.\<close>

definition byPatternThenBurden :: "ShiftGenerator \<Rightarrow> ShiftPatternId \<Rightarrow> Staff \<Rightarrow> Staff \<Rightarrow> int" where
  "byPatternThenBurden g pattern a b =
     (let diff = countTotalShifts g (id_staff a) pattern - countTotalShifts g (id_staff b) pattern
      in if diff \<noteq> 0 then diff else burden g a - burden g b)"

text \<open>
  \<open>regulars.filter(s => !isAssigned(s.id))\<close>, where \<open>isAssigned\<close> reads
  \<open>this.schedule[dateStr][id]\<close>: the callback runs, and raises on a missing row, only
  when there is a regular staff member.
\<close>

definition unassigned ::
  "ShiftGenerator \<Rightarrow> int \<Rightarrow> int list \<Rightarrow> Staff list \<Rightarrow> Staff list result" where
  "unassigned g d assignedIds regulars =
     (if regulars = [] then ret []
      else case map_of (schedule_g g) (dateOf g d) of
             None \<Rightarrow> raise
           | Some row \<Rightarrow>
               ret (filter (\<lambda>s. \<not> (map_of row (id_staff s) \<noteq> Some Blank
                                     \<or> id_staff s \<in> set assignedIds)) regulars))"

text \<open>
  The state of a day of phase 4 is the generator and the set \<open>assignedIds\<close>; the
  loop over the candidates adds the counter. After the \<open>break\<close> the remaining
  candidates change nothing.
\<close>

definition assignStep ::
  "int \<Rightarrow> ShiftPatternId \<Rightarrow> int \<Rightarrow> bool \<Rightarrow> Staff
     \<Rightarrow> ShiftGenerator \<times> int list \<times> int \<Rightarrow> ShiftGenerator \<times> int list \<times> int" where
  "assignStep d pattern neededCount checkWeekly s st =
     (case st of (g, assignedIds, cnt) \<Rightarrow>
        if cnt \<ge> neededCount then (g, assignedIds, cnt)
        else if constraintsBlock g d (id_staff s) pattern checkWeekly then (g, assignedIds, cnt)
        else (setShift g d (id_staff s) pattern, id_staff s # assignedIds, cnt + 1))"

definition sortCandidates ::
  "Random \<Rightarrow> RandomCall \<Rightarrow> (ShiftGenerator \<Rightarrow> Staff \<Rightarrow> Staff \<Rightarrow> int) option \<Rightarrow> ShiftGenerator
     \<Rightarrow> ShiftPatternId \<Rightarrow> Staff list \<Rightarrow> Staff list" where
  "sortCandidates rnd call sortFn g pattern candidates =
     (case sortFn of
        Some cmp \<Rightarrow> sortBy (cmp g) candidates
      | None \<Rightarrow> sortBy (byPattern g pattern) (shuffle (rnd call) candidates))"

definition assignPattern ::
  "Random \<Rightarrow> Staff list \<Rightarrow> int \<Rightarrow> ShiftPatternId \<Rightarrow> int \<Rightarrow> bool
     \<Rightarrow> (ShiftGenerator \<Rightarrow> Staff \<Rightarrow> Staff \<Rightarrow> int) option
     \<Rightarrow> ShiftGenerator \<times> int list \<Rightarrow> (ShiftGenerator \<times> int list) result" where
  "assignPattern rnd regulars d pattern targetCount relaxConstraints sortFn st =
     (case st of (g, assignedIds) \<Rightarrow>
        let existingCount = int (length (filter
              (\<lambda>s. cell (schedule_g g) (dateOf g d) (id_staff s) = Some pattern) (staff_g g)));
            neededCount = max 0 (targetCount - existingCount)
        in if neededCount = 0 then ret (g, assignedIds)
           else bindR (unassigned g d assignedIds regulars) (\<lambda>candidates.
             case fold (assignStep d pattern neededCount (\<not> relaxConstraints))
                    (sortCandidates rnd (DefaultSort d pattern False) sortFn g pattern candidates)
                    (g, assignedIds, 0) of
               (g1, assignedIds1, cnt) \<Rightarrow>
                 if cnt < neededCount \<and> \<not> relaxConstraints
                 then bindR (unassigned g1 d assignedIds1 regulars) (\<lambda>moreCandidates.
                   case fold (assignStep d pattern neededCount False)
                          (sortCandidates rnd (DefaultSort d pattern True) sortFn g1 pattern
                             moreCandidates)
                          (g1, assignedIds1, cnt) of
                     (g2, assignedIds2, cnt2) \<Rightarrow> ret (g2, assignedIds2))
                 else ret (g1, assignedIds1)))"

definition fallbackShift :: "ShiftGenerator \<Rightarrow> int \<Rightarrow> int \<Rightarrow> ShiftPatternId" where
  "fallbackShift g d sid =
     (let shift = (if isEarlyShiftLimitExceeded g sid then C else B) in
      if hasIncompatibleConflict g d sid shift
      then (if shift = B then C else if shift = C then D else if shift = D then E else shift)
      else shift)"

definition phase4_Day :: "Random \<Rightarrow> int \<Rightarrow> ShiftGenerator \<Rightarrow> ShiftGenerator result" where
  "phase4_Day rnd d g =
     (if isHoliday_gen g d \<or> isSaturday g d then ret g
      else let regulars = filter (\<lambda>s. shiftType s = Regular) (staff_g g);
               dayOfWeek = jsGetDay (year_g g) (month_g g - 1) d;
               neededA = max 0 (2 - countQualifiedPartTimersForShift g d A);
               neededJ = max 0 (2 - countQualifiedPartTimersForShift g d J)
        in bindR
             (if dayOfWeek \<ge> 1 \<and> dayOfWeek \<le> 3
              then bindR (assignPattern rnd regulars d A neededA False
                            (Some (\<lambda>g'. byPatternThenBurden g' A)) (g, []))
                     (assignPattern rnd regulars d J neededJ False
                            (Some (\<lambda>g'. byPatternThenBurden g' J)))
              else bindR (assignPattern rnd regulars d J neededJ False
                            (Some (\<lambda>g'. byPatternThenBurden g' J)) (g, []))
                     (assignPattern rnd regulars d A neededA False
                            (Some (\<lambda>g'. byPatternThenBurden g' A))))
             (\<lambda>st1. bindR (assignPattern rnd regulars d D 1 False None st1)
             (\<lambda>st2. bindR (assignPattern rnd regulars d E 1 False None st2)
             (\<lambda>st3. bindR (assignPattern rnd regulars d C 1 False None st3)
             (\<lambda>st4. case st4 of (g4, assignedIds4) \<Rightarrow>
                bindR (unassigned g4 d assignedIds4 regulars)
                  (\<lambda>remaining.
                     ret (fst (fold
                       (\<lambda>s (g', assignedIds').
                          (setShift g' d (id_staff s) (fallbackShift g' d (id_staff s)),
                           id_staff s # assignedIds'))
                       (sortBy (byBurden g4) remaining) (g4, assignedIds4)))))))))"

definition phase4_RegularWeekday :: "Random \<Rightarrow> ShiftGenerator \<Rightarrow> ShiftGenerator result" where
  "phase4_RegularWeekday rnd g = foldR (phase4_Day rnd) [1 .. daysInMonth g] g"

subsection \<open>Phases 4.5 and 5\<close>

definition lateCandidate :: "ShiftGenerator \<Rightarrow> int \<Rightarrow> StaffRole \<Rightarrow> Staff option" where
  "lateCandidate g d r =
     find (\<lambda>s. role s = Some r
               \<and> (getShift_gen g d (id_staff s) = B \<or> getShift_gen g d (id_staff s) = C)
               \<and> \<not> hasIncompatibleConflict g d (id_staff s) D) (staff_g g)"

definition hasLateRole :: "ShiftGenerator \<Rightarrow> int \<Rightarrow> StaffRole \<Rightarrow> bool" where
  "hasLateRole g d r =
     list_ex (\<lambda>s. getShift_gen g d (id_staff s) \<in> set [D, E, J] \<and> role s = Some r) (staff_g g)"

definition phase4_5_Day :: "int \<Rightarrow> ShiftGenerator \<Rightarrow> ShiftGenerator" where
  "phase4_5_Day d g =
     (if isHoliday_gen g d \<or> isSaturday g d then g
      else let hasInfant = hasLateRole g d Infant;
               hasToddler = hasLateRole g d Toddler;
               g1 = (if \<not> hasInfant
                     then (case lateCandidate g d Infant of
                             None \<Rightarrow> g
                           | Some candidate \<Rightarrow> setShift g d (id_staff candidate) D)
                     else g)
        in if \<not> hasToddler
           then (case lateCandidate g1 d Toddler of
                   None \<Rightarrow> g1
                 | Some candidate \<Rightarrow> setShift g1 d (id_staff candidate) D)
           else g1)"

definition phase4_5_LateShiftCoverage :: "ShiftGenerator \<Rightarrow> ShiftGenerator" where
  "phase4_5_LateShiftCoverage g = fold phase4_5_Day [1 .. daysInMonth g] g"

definition phase5_PartTime :: "ShiftGenerator \<Rightarrow> ShiftGenerator" where
  "phase5_PartTime g = g"

subsection \<open>Phase 6: minimum count adjustment\<close>

text \<open>The table \<open>SHIFT_PATTERNS\<close> of src/types.ts: each band with its \<open>minCount\<close>.\<close>

definition SHIFT_PATTERNS :: "(ShiftPatternId \<times> int) list" where
  "SHIFT_PATTERNS = [(A, 2), (B, 1), (C, 1), (D, 1), (E, 1), (J, 2)]"

definition pullStep ::
  "int \<Rightarrow> ShiftPatternId \<Rightarrow> int \<Rightarrow> Staff \<Rightarrow> ShiftGenerator \<times> int \<Rightarrow> ShiftGenerator \<times> int" where
  "pullStep d pattern minCount s st =
     (case st of (g, currentCount) \<Rightarrow>
        if currentCount \<ge> minCount then (g, currentCount)
        else if constraintsBlock g d (id_staff s) pattern False then (g, currentCount)
        else (setShift g d (id_staff s) pattern, currentCount + 1))"

definition patternMinimum :: "int \<Rightarrow> ShiftPatternId \<times> int \<Rightarrow> ShiftGenerator \<Rightarrow> ShiftGenerator" where
  "patternMinimum d pm g =
     (case pm of (pattern, minCount) \<Rightarrow>
        let currentCount = countPattern g d pattern in
        if currentCount < minCount then
          (let candidates = filter
                 (\<lambda>s. let shift = getShift_gen g d (id_staff s) in
                       shift \<noteq> Blank \<and> shift \<noteq> Kyuu \<and> shift \<noteq> Furi \<and> shift \<noteq> Yuu
                       \<and> shift \<noteq> pattern \<and> shiftType s \<noteq> Cooking
                       \<and> shiftType s \<noteq> Part_time \<and> position s \<noteq> Enchou) (staff_g g)
           in fst (fold (pullStep d pattern minCount)
                     (sortBy (byPattern g pattern) candidates) (g, currentCount)))
        else g)"

definition availableStaff :: "ShiftGenerator \<Rightarrow> int \<Rightarrow> Staff list" where
  "availableStaff g d =
     filter (\<lambda>s. getShift_gen g d (id_staff s) = Blank \<and> shiftType s \<noteq> Cooking
                 \<and> shiftType s \<noteq> Part_time \<and> position s \<noteq> Enchou) (staff_g g)"

definition topUpShift :: "ShiftGenerator \<Rightarrow> int \<Rightarrow> int \<Rightarrow> ShiftPatternId" where
  "topUpShift g d sid =
     (let shift = (if isEarlyShiftLimitExceeded g sid then C else B) in
      if hasIncompatibleConflict g d sid shift
      then (if shift = B then C else if shift = C then D else shift)
      else shift)"

text \<open>
  The loop \<open>while (true)\<close> over the total count. \<open>availableStaff[0]\<close> is read
  after the test of the length; reading \<open>.id\<close> of a missing first element would
  raise.
\<close>

partial_function (option) totalCountLoop :: "int \<Rightarrow> ShiftGenerator \<Rightarrow> ShiftGenerator result" where
  "totalCountLoop d g =
     (if countWorkingStaff g d \<ge> 8 then Some (Inr g)
      else if availableStaff g d = [] then Some (Inr g)
      else case sortBy (byBurden g) (availableStaff g d) of
             [] \<Rightarrow> Some (Inl TypeError)
           | candidate # rest \<Rightarrow>
               totalCountLoop d
                 (setShift g d (id_staff candidate) (topUpShift g d (id_staff candidate))))"

declare totalCountLoop.simps [code]

definition phase6_Day :: "int \<Rightarrow> ShiftGenerator \<Rightarrow> ShiftGenerator result" where
  "phase6_Day d g =
     (if isHoliday_gen g d \<or> isSaturday g d then ret g
      else totalCountLoop d (fold (patternMinimum d) SHIFT_PATTERNS g))"

definition phase6_MinCountAdjustment :: "ShiftGenerator \<Rightarrow> ShiftGenerator result" where
  "phase6_MinCountAdjustment g = foldR phase6_Day [1 .. daysInMonth g] g"

subsection \<open>Phase 7: chief backup\<close>

text \<open>
  \<open>tryReassignBStaff\<close>: the first staff member on band B that passes the tests is
  written to directly, without \<open>setShift\<close>. The result says whether the shortage
  was filled.
\<close>

definition tryReassignBStaff ::
  "ShiftGenerator \<Rightarrow> int \<Rightarrow> ShiftPatternId \<Rightarrow> int \<Rightarrow> (ShiftGenerator \<times> bool) result" where
  "tryReassignBStaff g d pattern minCount =
     (let currentCount = countPattern g d pattern in
      if currentCount \<ge> minCount then ret (g, False)
      else let dateStr = dateOf g d;
               bStaff = filter
                 (\<lambda>s. if position s = Enchou \<or> position s = Shunin then False
                       else if shiftType s \<noteq> Regular then False
                       else cell (schedule_g g) dateStr (id_staff s) = Some B) (staff_g g)
        in case find (\<lambda>s. \<not> constraintsBlock g d (id_staff s) pattern False)
                  (sortBy (byPattern g pattern) bStaff) of
             None \<Rightarrow> ret (g, False)
           | Some s \<Rightarrow>
               bindR (writeCell (schedule_g g) dateStr (id_staff s) pattern)
                 (\<lambda>sch. ret (g\<lparr>schedule_g := sch\<rparr>, True)))"

text \<open>The state of phase 7 is the generator and \<open>backupCount\<close>.\<close>

definition assignIfShort ::
  "Staff \<Rightarrow> int \<Rightarrow> ShiftPatternId \<Rightarrow> int \<Rightarrow> ShiftGenerator \<times> int
     \<Rightarrow> ((ShiftGenerator \<times> int) \<times> bool) result" where
  "assignIfShort chief d pattern minCount st =
     (case st of (g, backupCount) \<Rightarrow>
        bindR (tryReassignBStaff g d pattern minCount) (\<lambda>(g1, filled).
          if filled then ret ((g1, backupCount), False)
          else if countPattern g1 d pattern < minCount then
            (if pattern = A
                \<and> (let prevDay = getPreviousWorkDay_gen g1 d in
                     prevDay > 0 \<and> getShift_gen g1 prevDay (id_staff chief) = J)
             then ret ((g1, backupCount), False)
             else ret ((setShift g1 d (id_staff chief) pattern, backupCount + 1), True))
          else ret ((g1, backupCount), False)))"

text \<open>
  The five tests \<open>if (assignIfShort(...)) continue\<close> in a row: the flag says that
  one of them assigned the chief.
\<close>

fun shortageChain ::
  "Staff \<Rightarrow> int \<Rightarrow> (ShiftPatternId \<times> int) list \<Rightarrow> ShiftGenerator \<times> int
     \<Rightarrow> ((ShiftGenerator \<times> int) \<times> bool) result" where
  "shortageChain chief d [] st = ret (st, False)"
| "shortageChain chief d ((pattern, minCount) # rest) st =
     bindR (assignIfShort chief d pattern minCount st) (\<lambda>(st1, assigned).
       if assigned then ret (st1, True) else shortageChain chief d rest st1)"

definition phase7_Day :: "Staff \<Rightarrow> int \<Rightarrow> ShiftGenerator \<times> int \<Rightarrow> (ShiftGenerator \<times> int) result" where
  "phase7_Day chief d st =
     (case st of (g, backupCount) \<Rightarrow>
        if isHoliday_gen g d then ret (setShift g d (id_staff chief) Kyuu, backupCount)
        else if isSaturday g d then ret (g, backupCount)
        else if backupCount \<ge> 8 then
          (if getShift_gen g d (id_staff chief) = Blank
           then ret (setShift g d (id_staff chief) Kyuu, backupCount)
           else ret (g, backupCount))
        else bindR (shortageChain chief d [(A, 2), (J, 2), (D, 1), (E, 1), (C, 1)] (g, backupCount))
          (\<lambda>((g1, backupCount1), assigned).
             if assigned then ret (g1, backupCount1)
             else if countWorkingStaff g1 d < 8
             then ret (setShift g1 d (id_staff chief) B, backupCount1 + 1)
             else if getShift_gen g1 d (id_staff chief) = Blank
             then ret (setShift g1 d (id_staff chief) Kyuu, backupCount1)
             else ret (g1, backupCount1)))"

definition phase7_ChiefBackup :: "ShiftGenerator \<Rightarrow> ShiftGenerator result" where
  "phase7_ChiefBackup g =
     (case find (\<lambda>s. position s = Shunin) (staff_g g) of
        None \<Rightarrow> ret g
      | Some chief \<Rightarrow>
          bindR (foldR (phase7_Day chief) [1 .. daysInMonth g] (g, 0)) (\<lambda>(g', backupCount). ret g'))"

subsection \<open>Phases 8 to 10 and the final fill\<close>

definition phase8_CompensatoryOff :: "ShiftGenerator \<Rightarrow> ShiftGenerator" where
  "phase8_CompensatoryOff g = g"

text \<open>
  The body shared by phase 9 and the final fill: a cell that is undefined or empty is
  set to the regular day off, unless the staff member is part-time. (Phase 9 tests
  undefined, null and the empty string, the final fill any falsy value; for a cell
  these are the same.)
\<close>

definition fillCell :: "DateKey \<Rightarrow> Staff \<Rightarrow> ShiftSchedule \<Rightarrow> ShiftSchedule" where
  "fillCell dateStr s sch =
     (let shift = cell sch dateStr (id_staff s) in
      if (shift = None \<or> shift = Some Blank) \<and> shiftType s \<noteq> Part_time
      then putCell sch dateStr (id_staff s) Kyuu
      else sch)"

definition fillDay :: "ShiftGenerator \<Rightarrow> int \<Rightarrow> ShiftSchedule \<Rightarrow> ShiftSchedule" where
  "fillDay g d sch = fold (fillCell (dateOf g d)) (staff_g g) (ensureRow sch (dateOf g d))"

definition phase9_FillEmpty :: "ShiftGenerator \<Rightarrow> ShiftGenerator" where
  "phase9_FillEmpty g = g\<lparr>schedule_g := fold (fillDay g) [1 .. daysInMonth g] (schedule_g g)\<rparr>"

definition phase10_Staff :: "int \<Rightarrow> int \<Rightarrow> Staff \<Rightarrow> ShiftGenerator \<Rightarrow> ShiftGenerator" where
  "phase10_Staff d prevDay s g =
     (if shiftType s = Part_time then g
      else let prevShift = getShift_gen g prevDay (id_staff s);
               currShift = getShift_gen g d (id_staff s);
               g1 = (if prevShift = J \<and> currShift = A then setShift g d (id_staff s) B else g);
               g2 = (if prevShift = A \<and> currShift = A then setShift g1 d (id_staff s) B else g1)
        in if prevShift = J \<and> currShift = J then setShift g2 d (id_staff s) B else g2)"

definition phase10_Day :: "int \<Rightarrow> ShiftGenerator \<Rightarrow> ShiftGenerator" where
  "phase10_Day d g =
     (if isHoliday_gen g d then g
      else let prevDay = getPreviousWorkDay_gen g d in
        if prevDay = 0 then g
        else fold (phase10_Staff d prevDay) (staff_g g) g)"

definition phase10_Validation :: "ShiftGenerator \<Rightarrow> ShiftGenerator" where
  "phase10_Validation g = fold phase10_Day [1 .. daysInMonth g] g"

definition finalSafetyFill :: "ShiftGenerator \<Rightarrow> ShiftGenerator" where
  "finalSafetyFill g = g\<lparr>schedule_g := fold (fillDay g) [1 .. daysInMonth g] (schedule_g g)\<rparr>"

subsection \<open>generate\<close>

definition runPhases :: "Random \<Rightarrow> ShiftGenerator \<Rightarrow> ShiftGenerator result" where
  "runPhases rnd g =
     bindR (phase4_RegularWeekday rnd
              (phase3_Saturday rnd (phase2_5_Cooking (phase2_Chief (phase1_Director g)))))
       (\<lambda>g4. bindR (phase6_MinCountAdjustment (phase5_PartTime (phase4_5_LateShiftCoverage g4)))
       (\<lambda>g6. bindR (phase7_ChiefBackup g6)
       (\<lambda>g7. ret (finalSafetyFill
                    (phase10_Validation (phase9_FillEmpty (phase8_CompensatoryOff g7)))))))"

text \<open>
  \<open>new ShiftGenerator(staff, holidays, year, month, settings, currentSchedule,
  timeRangeSchedule).generate()\<close>, with the random source as a further parameter.
\<close>

definition generate ::
  "Random \<Rightarrow> Staff list \<Rightarrow> Holiday list \<Rightarrow> int \<Rightarrow> int \<Rightarrow> Settings \<Rightarrow> ShiftSchedule
     \<Rightarrow> TimeRangeSchedule \<Rightarrow> ShiftSchedule result" where
  "generate rnd ss hs y m st currentSchedule trs =
     bindR (runPhases rnd (newShiftGenerator ss hs y m st currentSchedule trs))
       (\<lambda>g. ret (schedule_g g))"

section \<open>Predicates and example inputs of the verification\<close>

subsection \<open>Example inputs of the constraint engine\<close>

definition exampleStaff :: "int \<Rightarrow> StaffShiftType \<Rightarrow> int list \<Rightarrow> Staff" where
  "exampleStaff i t inc =
     \<lparr>id_staff = i, name_staff = ''staff'', position = Hoikushi, shiftType = t,
      preferredShifts = [], weeklyDays = 5, role = None, incompatibleWith = inc,
      earlyShiftLimit = None, saturdayOnly = False, hasQualification = True,
      defaultTimeRange = None\<rparr>"

definition exampleSettings :: Settings where
  "exampleSettings = \<lparr>saturdayStaffCount = 3, saturdayShiftPattern = A\<rparr>"

text \<open>A context for April 2024 whose schedule has the one row of Tuesday the 2nd.\<close>

definition exampleContext :: "Staff list \<Rightarrow> Row \<Rightarrow> ConstraintContext" where
  "exampleContext ss row =
     \<lparr>schedule = [((2024, 4, 2), row)], staff = ss, holidays = [],
      settings = exampleSettings, year = 2024, month = 4\<rparr>"

text \<open>Three regular staff: the first lists a fourth as incompatible, the third has an
  early-shift limit of zero; the fourth, outside the rotation, holds the earliest band.\<close>

definition rankingContext :: ConstraintContext where
  "rankingContext =
     exampleContext
       [exampleStaff 1 Regular [4], exampleStaff 2 Regular [],
        (exampleStaff 3 Regular [])\<lparr>earlyShiftLimit := Some 0\<rparr>, exampleStaff 4 No_shift []]
       [(4, A)]"

text \<open>A regular staff member on the regular day off.\<close>

definition dayOffContext :: ConstraintContext where
  "dayOffContext = exampleContext [exampleStaff 1 Regular []] [(1, Kyuu)]"

text \<open>Three, and two, staff on the earliest band.\<close>

definition threeEarlyContext :: ConstraintContext where
  "threeEarlyContext =
     exampleContext [exampleStaff 1 Regular [], exampleStaff 2 Regular [], exampleStaff 3 Regular []]
       [(1, A), (2, A), (3, A)]"

definition twoEarlyContext :: ConstraintContext where
  "twoEarlyContext =
     exampleContext [exampleStaff 1 Regular [], exampleStaff 2 Regular [], exampleStaff 3 Regular []]
       [(1, A), (2, A), (3, B)]"

text \<open>Staff 1 lists staff 2 as incompatible; staff 2 lists nobody. In the first context
  staff 1 holds band C, in the second staff 2 does, in the third staff 2 is on the
  regular day off.\<close>

definition oneSidedStaff :: "Staff list" where
  "oneSidedStaff = [exampleStaff 1 Regular [2], exampleStaff 2 Regular []]"

definition listerAssignedContext :: ConstraintContext where
  "listerAssignedContext = exampleContext oneSidedStaff [(1, C)]"

definition listedAssignedContext :: ConstraintContext where
  "listedAssignedContext = exampleContext oneSidedStaff [(2, C)]"

definition listedOffContext :: ConstraintContext where
  "listedOffContext = exampleContext oneSidedStaff [(2, Kyuu)]"

subsection \<open>Predicates on generator states\<close>

definition hasRow :: "ShiftSchedule \<Rightarrow> DateKey \<Rightarrow> bool" where
  "hasRow sch k \<longleftrightarrow> map_of sch k \<noteq> None"

definition hasCell :: "ShiftSchedule \<Rightarrow> DateKey \<Rightarrow> int \<Rightarrow> bool" where
  "hasCell sch k i \<longleftrightarrow> cell sch k i \<noteq> None"

definition frame :: "ShiftGenerator \<Rightarrow> ShiftGenerator \<Rightarrow> bool" where
  "frame g g' \<longleftrightarrow>
     staff_g g' = staff_g g \<and> timeRangeSchedule_g g' = timeRangeSchedule_g g
     \<and> holidays_g g' = holidays_g g \<and> settings_g g' = settings_g g
     \<and> year_g g' = year_g g \<and> month_g g' = month_g g \<and> daysInMonth g' = daysInMonth g
     \<and> (\<forall>k. hasRow (schedule_g g) k \<longrightarrow> hasRow (schedule_g g') k)
     \<and> (\<forall>k i. hasCell (schedule_g g) k i \<longrightarrow> hasCell (schedule_g g') k i)
     \<and> (\<forall>k i. cell (schedule_g g) k i = Some Yuu \<or> cell (schedule_g g) k i = Some Furi
            \<longrightarrow> cell (schedule_g g') k i = cell (schedule_g g) k i)"

definition wellFormed :: "ShiftGenerator \<Rightarrow> bool" where
  "wellFormed g \<longleftrightarrow>
     (\<forall>d \<in> {1 .. daysInMonth g}. hasRow (schedule_g g) (dateOf g d)
        \<and> (\<forall>s \<in> set (staff_g g). hasCell (schedule_g g) (dateOf g d) (id_staff s)))"

definition returnsWith :: "('a \<Rightarrow> bool) \<Rightarrow> 'a result \<Rightarrow> bool" where
  "returnsWith P m \<longleftrightarrow> (\<exists>x. m = Some (Inr x) \<and> P x)"

definition writable :: "ShiftGenerator \<Rightarrow> int \<Rightarrow> int \<Rightarrow> bool" where
  "writable g d i \<longleftrightarrow>
     (let current = cell (schedule_g g) (dateOf g d) i in
      \<not> (current = Some Yuu \<or> current = Some Furi)
      \<and> \<not> (isPartTimer g i \<and> current \<noteq> Some Blank \<and> current \<noteq> Some Kyuu))"

definition fills :: "ShiftSchedule \<Rightarrow> ShiftSchedule \<Rightarrow> bool" where
  "fills sch sch' \<longleftrightarrow>
     (\<forall>k. hasRow sch k \<longrightarrow> hasRow sch' k)
     \<and> (\<forall>k i. cell sch' k i = cell sch k i
            \<or> ((cell sch k i = None \<or> cell sch k i = Some Blank) \<and> cell sch' k i = Some Kyuu))"

definition filled :: "ShiftSchedule \<Rightarrow> DateKey \<Rightarrow> int \<Rightarrow> bool" where
  "filled sch k i \<longleftrightarrow> cell sch k i \<noteq> None \<and> cell sch k i \<noteq> Some Blank"

definition badPair :: "ShiftPatternId \<Rightarrow> ShiftPatternId \<Rightarrow> bool" where
  "badPair prevShift currShift \<longleftrightarrow>
     (prevShift = J \<and> currShift = A) \<or> (prevShift = A \<and> currShift = A)
     \<or> (prevShift = J \<and> currShift = J)"

definition adjacentOK :: "ShiftGenerator \<Rightarrow> int \<Rightarrow> int \<Rightarrow> bool" where
  "adjacentOK g d i \<longleftrightarrow>
     (\<not> isHoliday_gen g d \<longrightarrow> getPreviousWorkDay_gen g d \<noteq> 0 \<longrightarrow>
        \<not> badPair (getShift_gen g (getPreviousWorkDay_gen g d) i) (getShift_gen g d i))"

definition workDay :: "int \<Rightarrow> int \<Rightarrow> Holiday list \<Rightarrow> int \<Rightarrow> bool" where
  "workDay y m hs d \<longleftrightarrow>
     getDayOfWeek y m d \<noteq> 0 \<and> \<not> checkIsHoliday (getFormattedDate y m d) hs"

subsection \<open>Example inputs of the generator\<close>

text \<open>A random source whose every shuffle keeps the order.\<close>

definition noRandom :: Random where
  "noRandom = (\<lambda>call. [])"

definition noTimeRanges :: TimeRangeSchedule where
  "noTimeRanges = (\<lambda>dateStr. None)"

text \<open>One regular staff member, on paid leave on Monday 5 February 2024.\<close>

definition exampleRoster :: "Staff list" where
  "exampleRoster = [exampleStaff 1 Regular []]"

definition exampleExisting :: ShiftSchedule where
  "exampleExisting = [((2024, 2, 5), [(1, Yuu)])]"

text \<open>The schedule that the generator returns for the roster (February 2024).\<close>

definition exampleGenerated :: ShiftSchedule where
  "exampleGenerated =
     [((2024, 2, 1), [(1, Furi)]), ((2024, 2, 2), [(1, J)]),
      ((2024, 2, 3), [(1, B)]), ((2024, 2, 4), [(1, Kyuu)]),
      ((2024, 2, 5), [(1, Yuu)]), ((2024, 2, 6), [(1, Furi)]),
      ((2024, 2, 7), [(1, J)]), ((2024, 2, 8), [(1, E)]),
      ((2024, 2, 9), [(1, J)]), ((2024, 2, 10), [(1, B)]),
      ((2024, 2, 11), [(1, Kyuu)]), ((2024, 2, 12), [(1, Furi)]),
      ((2024, 2, 13), [(1, J)]), ((2024, 2, 14), [(1, E)]),
      ((2024, 2, 15), [(1, J)]), ((2024, 2, 16), [(1, E)]),
      ((2024, 2, 17), [(1, A)]), ((2024, 2, 18), [(1, Kyuu)]),
      ((2024, 2, 19), [(1, Furi)]), ((2024, 2, 20), [(1, J)]),
      ((2024, 2, 21), [(1, E)]), ((2024, 2, 22), [(1, J)]),
      ((2024, 2, 23), [(1, E)]), ((2024, 2, 24), [(1, A)]),
      ((2024, 2, 25), [(1, Kyuu)]), ((2024, 2, 26), [(1, J)]),
      ((2024, 2, 27), [(1, E)]), ((2024, 2, 28), [(1, J)]),
      ((2024, 2, 29), [(1, E)])]"

subsection \<open>The stable sort\<close>

lemma mset_insertBy: "mset (insertBy cmp x ys) = add_mset x (mset ys)"
  by (induction ys) auto

lemma mset_sortBy: "mset (sortBy cmp xs) = mset xs"
  by (induction xs) (auto simp: sortBy_def mset_insertBy)

lemma set_insertBy: "set (insertBy cmp x ys) = insert x (set ys)"
  by (induction ys) auto

lemma set_sortBy [simp]: "set (sortBy cmp xs) = set xs"
  using mset_sortBy[of cmp xs] by (metis set_mset_mset)

lemma sortBy_Nil_iff [simp]: "sortBy cmp xs = [] \<longleftrightarrow> xs = []"
  using mset_sortBy[of cmp xs] by (metis mset_zero_iff)

lemma sorted_insertBy:
  assumes tr: "\<And>a b c. cmp a b \<le> 0 \<Longrightarrow> cmp b c \<le> 0 \<Longrightarrow> cmp a c \<le> 0"
    and tot: "\<And>a b. cmp a b \<le> 0 \<or> cmp b a \<le> 0"
  shows "sorted_wrt (\<lambda>a b. cmp a b \<le> 0) ys
         \<Longrightarrow> sorted_wrt (\<lambda>a b. cmp a b \<le> 0) (insertBy cmp x ys)"
proof (induction ys)
  case Nil
  then show ?case by simp
next
  case (Cons y ys)
  show ?case
  proof (cases "cmp x y \<le> 0")
    case True
    then show ?thesis using Cons.prems tr by auto
  next
    case False
    then have "cmp y x \<le> 0" using tot by blast
    then show ?thesis using False Cons by (auto simp: set_insertBy)
  qed
qed

lemma sorted_sortBy:
  assumes tr: "\<And>a b c. cmp a b \<le> 0 \<Longrightarrow> cmp b c \<le> 0 \<Longrightarrow> cmp a c \<le> 0"
    and tot: "\<And>a b. cmp a b \<le> 0 \<or> cmp b a \<le> 0"
  shows "sorted_wrt (\<lambda>a b. cmp a b \<le> 0) (sortBy cmp xs)"
  by (induction xs) (auto simp: sortBy_def intro: sorted_insertBy[OF tr tot])

section \<open>Properties of the constraint engine\<close>

lemma pushed_mem: "v \<in> set (pushed x) \<longleftrightarrow> x = Some v"
  by (auto simp: pushed_def split: option.splits)

lemmas check_defs = checkJToAViolation_def checkAToJViolation_def
  checkConsecutiveViolation_def checkIncompatibleViolation_def checkWeeklyAJLimitViolation_def
  checkMinCountViolation_def checkEarlyLimitViolation_def checkFairnessViolation_def
  hard_def soft_def consecutiveCode_def

lemma minCount_A_iff:
  "hard MIN_COUNT_A \<in> set (checkConstraints ctx day sid newShift) \<longleftrightarrow>
     getShift ctx day sid = A \<and> countDayPattern ctx day A \<le> 2"
  by (auto simp: checkConstraints_def pushed_mem check_defs Let_def
           split: option.splits if_splits)

lemma minCount_J_iff:
  "hard MIN_COUNT_J \<in> set (checkConstraints ctx day sid newShift) \<longleftrightarrow>
     getShift ctx day sid = J \<and> countDayPattern ctx day J \<le> 2"
  by (auto simp: checkConstraints_def pushed_mem check_defs Let_def
           split: option.splits if_splits)

lemma incompatible_iff:
  "hard INCOMPATIBLE \<in> set (checkConstraints ctx day q X) \<longleftrightarrow>
     (\<exists>sq. findStaff (staff ctx) q = Some sq \<and>
        (\<exists>i \<in> set (incompatibleWith sq).
           cell (schedule ctx) (getFormattedDate (year ctx) (month ctx) day) i = Some X))"
  by (auto simp: checkConstraints_def pushed_mem check_defs Let_def list_ex_iff
           split: option.splits if_splits)

lemma candidateOrder_le:
  "candidateOrder a b \<le> 0 \<longleftrightarrow>
     (isAssignable a \<or> \<not> isAssignable b) \<and>
     (isAssignable a = isAssignable b \<longrightarrow> length (violations a) \<le> length (violations b))"
  by (auto simp: candidateOrder_def)

lemma sorted_candidates:
  "sorted_wrt (\<lambda>a b. candidateOrder a b \<le> 0) (sortBy candidateOrder xs)"
  by (rule sorted_sortBy) (auto simp: candidateOrder_le)

section \<open>Properties of the generator\<close>

subsection \<open>Cells, rows and setShift\<close>

lemma cell_ensureRow [simp]: "cell (ensureRow sch k) k' i = cell sch k' i"
  by (auto simp: cell_def ensureRow_def update_conv' split: option.splits)

lemma row_ensureRow: "hasRow (ensureRow sch k) k' \<longleftrightarrow> k' = k \<or> hasRow sch k'"
  by (auto simp: hasRow_def ensureRow_def update_conv' split: option.splits)

lemma cell_putCell: "cell (putCell sch k i v) k' i' = (if k' = k \<and> i' = i then Some v else cell sch k' i')"
  by (auto simp: cell_def putCell_def update_conv' split: option.splits)

lemma row_putCell: "hasRow (putCell sch k i v) k' \<longleftrightarrow> k' = k \<or> hasRow sch k'"
  by (auto simp: hasRow_def putCell_def update_conv' split: option.splits)

lemma writeCell_putCell: "hasRow sch k \<Longrightarrow> writeCell sch k i v = ret (putCell sch k i v)"
  by (auto simp: hasRow_def writeCell_def putCell_def)

lemma hasCell_hasRow: "hasCell sch k i \<Longrightarrow> hasRow sch k"
  by (auto simp: hasCell_def hasRow_def cell_def split: option.splits)

lemma setShift_fields [simp]:
  "staff_g (setShift g d i v) = staff_g g"
  "timeRangeSchedule_g (setShift g d i v) = timeRangeSchedule_g g"
  "holidays_g (setShift g d i v) = holidays_g g"
  "settings_g (setShift g d i v) = settings_g g"
  "year_g (setShift g d i v) = year_g g"
  "month_g (setShift g d i v) = month_g g"
  "daysInMonth (setShift g d i v) = daysInMonth g"
  by (simp_all add: setShift_def Let_def)

lemma dateOf_setShift [simp]: "dateOf (setShift g d i v) = dateOf g"
  by (simp add: dateOf_def fun_eq_iff)

lemma cell_setShift:
  "cell (schedule_g (setShift g d i v)) k j =
     (if k = dateOf g d \<and> j = i \<and> writable g d i then Some v else cell (schedule_g g) k j)"
  by (auto simp: setShift_def Let_def cell_putCell writable_def)

lemma row_setShift:
  "hasRow (schedule_g (setShift g d i v)) k \<longleftrightarrow> k = dateOf g d \<or> hasRow (schedule_g g) k"
  by (auto simp: setShift_def Let_def row_putCell row_ensureRow)

lemma hasCell_setShift:
  "hasCell (schedule_g g) k j \<Longrightarrow> hasCell (schedule_g (setShift g d i v)) k j"
  by (auto simp: hasCell_def cell_setShift)

lemma frame_refl [simp]: "frame g g"
  by (simp add: frame_def)

lemma frame_trans: "frame g1 g2 \<Longrightarrow> frame g2 g3 \<Longrightarrow> frame g1 g3"
  unfolding frame_def by metis

lemma frame_setShift: "frame g (setShift g d i v)"
  unfolding frame_def by (auto simp: cell_setShift row_setShift hasCell_setShift writable_def Let_def)

lemma frame_setShift': "frame g0 g \<Longrightarrow> frame g0 (setShift g d i v)"
  using frame_trans frame_setShift by blast

lemma frame_dateOf: "frame g g' \<Longrightarrow> dateOf g' = dateOf g"
  by (simp add: frame_def dateOf_def fun_eq_iff)

lemma frame_wellFormed: "frame g g' \<Longrightarrow> wellFormed g \<Longrightarrow> wellFormed g'"
  using frame_dateOf[of g g'] unfolding wellFormed_def frame_def
  by (simp del: split_paired_All)

subsection \<open>The phases that write through setShift only\<close>

text \<open>
  \<open>frame g g'\<close> says that \<open>g'\<close> differs from \<open>g\<close> in the schedule only, that
  no row and no cell of \<open>g\<close> is missing in \<open>g'\<close>, and that every cell of \<open>g\<close>
  holding the paid leave or the compensatory day off holds the same value in \<open>g'\<close>.
  Every phase is shown to lead from a state to a state in its frame.
\<close>

lemma fold_inv:
  assumes start: "P s"
    and step: "\<And>x t. x \<in> set xs \<Longrightarrow> P t \<Longrightarrow> P (f x t)"
  shows "P (fold f xs s)"
  using assms by (induction xs arbitrary: s) auto

lemma frame_phase1: "frame g0 g \<Longrightarrow> frame g0 (phase1_Director g)"
  unfolding phase1_Director_def
  by (auto split: option.splits intro!: fold_inv[where P="frame g0"] frame_setShift')

lemma frame_phase2: "frame g0 g \<Longrightarrow> frame g0 (phase2_Chief g)"
  by (simp add: phase2_Chief_def split: option.splits)

lemma frame_phase2_5_Day: "frame g0 (fst st) \<Longrightarrow> frame g0 (fst (phase2_5_Day cooks d st))"
  unfolding phase2_5_Day_def
  by (auto split: prod.splits simp: Let_def intro!: fold_inv[where P="frame g0"] frame_setShift')

lemma frame_phase2_5: "frame g0 g \<Longrightarrow> frame g0 (phase2_5_Cooking g)"
  unfolding phase2_5_Cooking_def Let_def
  by (auto intro!: fold_inv[where P="\<lambda>st. frame g0 (fst st)"] frame_phase2_5_Day)

lemma frame_phase3_Select: "frame g0 (fst st) \<Longrightarrow> frame g0 (fst (phase3_Select day s st))"
  unfolding phase3_Select_def
  by (auto split: prod.splits simp: Let_def intro!: frame_setShift')

lemma frame_phase3_rest:
  assumes "frame g0 g"
  shows "frame g0 (fst (case fold (phase3_Select day) sel (g, sc) of
             (g2, sc2) \<Rightarrow>
               (fold (\<lambda>s g'.
                   if position s = Enchou \<or> shiftType s = Cooking \<or> shiftType s = Part_time
                   then g'
                   else if find (\<lambda>x. id_staff x = id_staff s) sel' = None
                   then setShift g' day (id_staff s) Kyuu
                   else g')
                 (staff_g g2) g2,
                sc2)))"
proof -
  have 1: "frame g0 (fst (fold (phase3_Select day) sel (g, sc)))"
    using assms by (auto intro!: fold_inv[where P="\<lambda>st. frame g0 (fst st)"] frame_phase3_Select)
  obtain g2 sc2 where f: "fold (phase3_Select day) sel (g, sc) = (g2, sc2)"
    by (cases "fold (phase3_Select day) sel (g, sc)")
  have 2: "frame g0 g2" using 1 f by simp
  have "frame g0 (fold (\<lambda>s g'.
                   if position s = Enchou \<or> shiftType s = Cooking \<or> shiftType s = Part_time
                   then g'
                   else if find (\<lambda>x. id_staff x = id_staff s) sel' = None
                   then setShift g' day (id_staff s) Kyuu
                   else g') (staff_g g2) g2)"
    using 2 by (auto intro!: fold_inv[where P="frame g0"] frame_setShift')
  then show ?thesis using f by simp
qed

lemma frame_phase3_Day: "frame g0 (fst st) \<Longrightarrow> frame g0 (fst (phase3_Day rnd qs day st))"
  unfolding phase3_Day_def Let_def
  by (cases st) (simp only: prod.case fst_conv frame_phase3_rest)

lemma frame_phase3: "frame g0 g \<Longrightarrow> frame g0 (phase3_Saturday rnd g)"
  unfolding phase3_Saturday_def Let_def
  by (auto intro!: fold_inv[where P="\<lambda>st. frame g0 (fst st)"] frame_phase3_Day)

lemma frame_phase4_5_Day: "frame g0 g \<Longrightarrow> frame g0 (phase4_5_Day d g)"
  unfolding phase4_5_Day_def Let_def
  by (auto split: option.splits intro!: frame_setShift')

lemma frame_phase4_5: "frame g0 g \<Longrightarrow> frame g0 (phase4_5_LateShiftCoverage g)"
  unfolding phase4_5_LateShiftCoverage_def
  by (auto intro!: fold_inv[where P="frame g0"] frame_phase4_5_Day)

lemma frame_phase10_Staff: "frame g0 g \<Longrightarrow> frame g0 (phase10_Staff d p s g)"
  unfolding phase10_Staff_def Let_def
  by (auto intro!: frame_setShift')

lemma frame_phase10_Day: "frame g0 g \<Longrightarrow> frame g0 (phase10_Day d g)"
  unfolding phase10_Day_def Let_def
  by (auto intro!: fold_inv[where P="frame g0"] frame_phase10_Staff)

lemma frame_phase10: "frame g0 g \<Longrightarrow> frame g0 (phase10_Validation g)"
  unfolding phase10_Validation_def
  by (auto intro!: fold_inv[where P="frame g0"] frame_phase10_Day)

subsection \<open>Filling empty cells (phase 9 and the final fill)\<close>

lemma fills_refl [simp]: "fills sch sch"
  by (simp add: fills_def)

lemma fills_trans: "fills s1 s2 \<Longrightarrow> fills s2 s3 \<Longrightarrow> fills s1 s3"
  unfolding fills_def by (simp del: split_paired_All) metis

lemma fills_ensureRow: "fills sch (ensureRow sch k)"
  by (simp add: fills_def row_ensureRow)

lemma fills_fillCell: "fills sch (fillCell k s sch)"
  by (auto simp: fills_def fillCell_def Let_def cell_putCell row_putCell)

lemma fills_fillDay: "fills sch (fillDay g d sch)"
proof -
  have "fills sch (fold (fillCell (dateOf g d)) (staff_g g) (ensureRow sch (dateOf g d)))"
    by (rule fold_inv[where P="fills sch"]) (auto intro: fills_ensureRow fills_trans fills_fillCell)
  then show ?thesis by (simp add: fillDay_def)
qed

lemma fills_fold_fillDay: "fills sch (fold (fillDay g) ds sch)"
  by (rule fold_inv[where P="fills sch"]) (auto intro: fills_trans fills_fillDay)

lemma fills_cell:
  "fills sch sch' \<Longrightarrow>
     cell sch' k i = cell sch k i
     \<or> ((cell sch k i = None \<or> cell sch k i = Some Blank) \<and> cell sch' k i = Some Kyuu)"
  unfolding fills_def by blast

lemma fills_hasRow: "fills sch sch' \<Longrightarrow> hasRow sch k \<Longrightarrow> hasRow sch' k"
  unfolding fills_def by blast

lemma fills_hasCell: "fills sch sch' \<Longrightarrow> hasCell sch k i \<Longrightarrow> hasCell sch' k i"
  using fills_cell[of sch sch' k i] by (auto simp: hasCell_def)

lemma fills_protected:
  "fills sch sch' \<Longrightarrow> cell sch k i = Some Yuu \<or> cell sch k i = Some Furi
   \<Longrightarrow> cell sch' k i = cell sch k i"
  using fills_cell[of sch sch' k i] by auto

lemma frame_fills: "fills (schedule_g g) sch' \<Longrightarrow> frame g (g\<lparr>schedule_g := sch'\<rparr>)"
  unfolding frame_def
  by (simp del: split_paired_All add: fills_hasRow fills_hasCell fills_protected)

lemma frame_phase9: "frame g0 g \<Longrightarrow> frame g0 (phase9_FillEmpty g)"
  unfolding phase9_FillEmpty_def
  by (erule frame_trans) (rule frame_fills, rule fills_fold_fillDay)

lemma frame_final: "frame g0 g \<Longrightarrow> frame g0 (finalSafetyFill g)"
  unfolding finalSafetyFill_def
  by (erule frame_trans) (rule frame_fills, rule fills_fold_fillDay)

lemma frame_putCell:
  assumes "cell (schedule_g g) k i \<noteq> Some Yuu" and "cell (schedule_g g) k i \<noteq> Some Furi"
  shows "frame g (g\<lparr>schedule_g := putCell (schedule_g g) k i v\<rparr>)"
  using assms unfolding frame_def hasCell_def
  by (auto simp: cell_putCell row_putCell)

subsection \<open>Methods that may raise or not return\<close>

text \<open>
  \<open>returnsWith P m\<close> says that the result \<open>m\<close> is a returned value that
  satisfies \<open>P\<close>: the method terminated and raised nothing.
\<close>

lemma returnsWith_ret [simp]: "returnsWith P (ret x) \<longleftrightarrow> P x"
  by (simp add: returnsWith_def ret_def)

lemma returnsWith_bindR:
  "returnsWith P m \<Longrightarrow> (\<And>x. P x \<Longrightarrow> returnsWith Q (f x)) \<Longrightarrow> returnsWith Q (bindR m f)"
  by (auto simp: returnsWith_def bindR_def)

lemma returnsWith_foldR:
  "I s \<Longrightarrow> (\<And>x s. x \<in> set xs \<Longrightarrow> I s \<Longrightarrow> returnsWith I (f x s))
   \<Longrightarrow> returnsWith I (foldR f xs s)"
proof (induction xs arbitrary: s)
  case Nil
  then show ?case by simp
next
  case (Cons x xs)
  have 1: "returnsWith I (f x s)" using Cons.prems by simp
  have 2: "\<And>s'. I s' \<Longrightarrow> returnsWith I (foldR f xs s')"
    using Cons.IH Cons.prems(2) by simp
  show ?case
    unfolding foldR.simps using returnsWith_bindR[OF 1 2] .
qed

lemma returnsWith_mono: "returnsWith P m \<Longrightarrow> (\<And>x. P x \<Longrightarrow> Q x) \<Longrightarrow> returnsWith Q m"
  by (auto simp: returnsWith_def)

subsection \<open>Phase 4\<close>

lemma unassigned_returns:
  "hasRow (schedule_g g) (dateOf g d) \<Longrightarrow> returnsWith (\<lambda>x. True) (unassigned g d as regs)"
  by (auto simp: unassigned_def hasRow_def split: option.splits)

lemma frame_hasRow:
  "wellFormed g0 \<Longrightarrow> frame g0 g \<Longrightarrow> d \<in> {1 .. daysInMonth g0}
   \<Longrightarrow> hasRow (schedule_g g) (dateOf g d)"
  using frame_wellFormed[of g0 g] by (simp add: wellFormed_def frame_def)

lemma frame_assignStep:
  "frame g0 (fst st) \<Longrightarrow> frame g0 (fst (assignStep d p n w s st))"
  by (auto simp: assignStep_def split: prod.splits intro: frame_setShift')

lemma frame_fold_assignStep:
  "frame g0 (fst st) \<Longrightarrow> frame g0 (fst (fold (assignStep d p n w) xs st))"
  by (rule fold_inv[where P="\<lambda>st. frame g0 (fst st)"]) (auto intro: frame_assignStep)

lemma assignPattern_returns:
  assumes wf: "wellFormed g0" and d: "d \<in> {1 .. daysInMonth g0}" and fr: "frame g0 (fst st)"
  shows "returnsWith (\<lambda>st'. frame g0 (fst st'))
           (assignPattern rnd regs d p t relax sortFn st)"
proof -
  obtain g as where st: "st = (g, as)" by (cases st)
  have g: "frame g0 g" using fr st by simp
  show ?thesis
    unfolding assignPattern_def st prod.case Let_def
  proof (split if_split, intro conjI impI)
    show "returnsWith (\<lambda>st'. frame g0 (fst st')) (ret (g, as))" using g by simp
  next
    show "returnsWith (\<lambda>st'. frame g0 (fst st'))
     (bindR (unassigned g d as regs)
       (\<lambda>candidates.
           case fold (assignStep d p (max 0 (t - int (length (filter (\<lambda>s. cell (schedule_g g) (dateOf g d) (id_staff s) = Some p) (staff_g g))))) (\<not> relax))
                 (sortCandidates rnd (DefaultSort d p False) sortFn g p candidates) (g, as, 0) of
           (g1, assignedIds1, cnt) \<Rightarrow>
             if cnt < max 0 (t - int (length (filter (\<lambda>s. cell (schedule_g g) (dateOf g d) (id_staff s) = Some p) (staff_g g)))) \<and> \<not> relax
             then bindR (unassigned g1 d assignedIds1 regs)
                   (\<lambda>moreCandidates.
                       case fold (assignStep d p (max 0 (t - int (length (filter (\<lambda>s. cell (schedule_g g) (dateOf g d) (id_staff s) = Some p) (staff_g g))))) False)
                             (sortCandidates rnd (DefaultSort d p True) sortFn g1 p moreCandidates)
                             (g1, assignedIds1, cnt) of
                       (g2, assignedIds2, cnt2) \<Rightarrow> ret (g2, assignedIds2))
             else ret (g1, assignedIds1)))"
    proof (rule returnsWith_bindR[OF unassigned_returns[OF frame_hasRow[OF wf g d]]])
      fix cands
      let ?n = "max 0 (t - int (length (filter (\<lambda>s. cell (schedule_g g) (dateOf g d) (id_staff s) = Some p) (staff_g g))))"
      obtain g1 as1 c1 where f1: "fold (assignStep d p ?n (\<not> relax))
                 (sortCandidates rnd (DefaultSort d p False) sortFn g p cands) (g, as, 0) = (g1, as1, c1)"
        by (metis prod_cases3)
      have g1: "frame g0 g1"
        using frame_fold_assignStep[of g0 "(g, as, 0)" d p ?n "\<not> relax"
                "sortCandidates rnd (DefaultSort d p False) sortFn g p cands"] g f1 by simp
      have second: "returnsWith (\<lambda>st'. frame g0 (fst st'))
         (bindR (unassigned g1 d as1 regs)
                   (\<lambda>moreCandidates.
                       case fold (assignStep d p ?n False)
                             (sortCandidates rnd (DefaultSort d p True) sortFn g1 p moreCandidates)
                             (g1, as1, c1) of
                       (g2, assignedIds2, cnt2) \<Rightarrow> ret (g2, assignedIds2)))"
      proof (rule returnsWith_bindR[OF unassigned_returns[OF frame_hasRow[OF wf g1 d]]])
        fix more
        obtain g2 as2 c2 where f2: "fold (assignStep d p ?n False)
                 (sortCandidates rnd (DefaultSort d p True) sortFn g1 p more) (g1, as1, c1) = (g2, as2, c2)"
          by (metis prod_cases3)
        have "frame g0 g2"
          using frame_fold_assignStep[of g0 "(g1, as1, c1)" d p ?n False
                "sortCandidates rnd (DefaultSort d p True) sortFn g1 p more"] g1 f2 by simp
        then show "returnsWith (\<lambda>st'. frame g0 (fst st'))
           (case fold (assignStep d p ?n False)
                             (sortCandidates rnd (DefaultSort d p True) sortFn g1 p more)
                             (g1, as1, c1) of
                       (g2, assignedIds2, cnt2) \<Rightarrow> ret (g2, assignedIds2))"
          using f2 by simp
      qed
      show "returnsWith (\<lambda>st'. frame g0 (fst st'))
        (case fold (assignStep d p ?n (\<not> relax))
                 (sortCandidates rnd (DefaultSort d p False) sortFn g p cands) (g, as, 0) of
           (g1, assignedIds1, cnt) \<Rightarrow>
             if cnt < ?n \<and> \<not> relax
             then bindR (unassigned g1 d assignedIds1 regs)
                   (\<lambda>moreCandidates.
                       case fold (assignStep d p ?n False)
                             (sortCandidates rnd (DefaultSort d p True) sortFn g1 p moreCandidates)
                             (g1, assignedIds1, cnt) of
                       (g2, assignedIds2, cnt2) \<Rightarrow> ret (g2, assignedIds2))
             else ret (g1, assignedIds1))"
        unfolding f1 prod.case using second g1 by simp
    qed
  qed
qed

lemma phase4_rest_frame:
  "frame g0 g \<Longrightarrow>
   frame g0 (fst (fold (\<lambda>s (g', assignedIds').
                          (setShift g' d (id_staff s) (fallbackShift g' d (id_staff s)),
                           id_staff s # assignedIds')) xs (g, as)))"
  by (rule fold_inv[where P="\<lambda>st. frame g0 (fst st)"])
     (auto split: prod.splits intro: frame_setShift')

lemma phase4_Day_returns:
  assumes wf: "wellFormed g0" and d: "d \<in> {1 .. daysInMonth g0}" and fr: "frame g0 g"
  shows "returnsWith (frame g0) (phase4_Day rnd d g)"
proof -
  let ?P = "\<lambda>st' :: ShiftGenerator \<times> int list. frame g0 (fst st')"
  have ap: "\<And>regs p t relax sortFn st. ?P st \<Longrightarrow>
      returnsWith ?P (assignPattern rnd regs d p t relax sortFn st)"
    using assignPattern_returns[OF wf d] .
  have start: "?P (g, [])" using fr by simp
  have tail: "\<And>regs g4 as4. frame g0 g4 \<Longrightarrow> returnsWith (frame g0)
     (bindR (unassigned g4 d as4 regs)
                  (\<lambda>remaining.
                     ret (fst (fold
                       (\<lambda>s (g', assignedIds').
                          (setShift g' d (id_staff s) (fallbackShift g' d (id_staff s)),
                           id_staff s # assignedIds'))
                       (sortBy (byBurden g4) remaining) (g4, as4)))))"
  proof -
    fix regs g4 as4 assume g4: "frame g0 g4"
    show "returnsWith (frame g0)
     (bindR (unassigned g4 d as4 regs)
                  (\<lambda>remaining.
                     ret (fst (fold
                       (\<lambda>s (g', assignedIds').
                          (setShift g' d (id_staff s) (fallbackShift g' d (id_staff s)),
                           id_staff s # assignedIds'))
                       (sortBy (byBurden g4) remaining) (g4, as4)))))"
      by (rule returnsWith_bindR[OF unassigned_returns[OF frame_hasRow[OF wf g4 d]]])
         (simp add: phase4_rest_frame[OF g4])
  qed
  show ?thesis
    unfolding phase4_Day_def Let_def
    by (auto intro!: returnsWith_bindR[where P="?P"] ap tail simp: fr)
qed

lemma phase4_returns:
  assumes wf: "wellFormed g"
  shows "returnsWith (frame g) (phase4_RegularWeekday rnd g)"
  unfolding phase4_RegularWeekday_def
  by (rule returnsWith_foldR[where I="frame g"])
     (auto intro: phase4_Day_returns[OF wf])

subsection \<open>Phase 6 and the termination of its loop\<close>

lemma frame_pullStep: "frame g0 (fst st) \<Longrightarrow> frame g0 (fst (pullStep d p m s st))"
  by (auto simp: pullStep_def split: prod.splits intro: frame_setShift')

lemma frame_patternMinimum: "frame g0 g \<Longrightarrow> frame g0 (patternMinimum d pm g)"
  unfolding patternMinimum_def Let_def
  by (auto split: prod.splits intro!: fold_inv[where P="\<lambda>st. frame g0 (fst st)"] frame_pullStep)

lemma frame_patternMinimums: "frame g0 g \<Longrightarrow> frame g0 (fold (patternMinimum d) pms g)"
  by (rule fold_inv[where P="frame g0"]) (auto intro: frame_patternMinimum)

lemma length_filter_mono:
  "(\<And>x. x \<in> set xs \<Longrightarrow> Q x \<Longrightarrow> P x) \<Longrightarrow> length (filter Q xs) \<le> length (filter P xs)"
proof (induction xs)
  case Nil
  then show ?case by simp
next
  case (Cons x xs)
  have "length (filter Q xs) \<le> length (filter P xs)"
    using Cons by simp
  moreover have "Q x \<Longrightarrow> P x" using Cons.prems by simp
  ultimately show ?case by auto
qed

lemma length_filter_strict:
  "(\<And>x. x \<in> set xs \<Longrightarrow> Q x \<Longrightarrow> P x) \<Longrightarrow> c \<in> set xs \<Longrightarrow> P c \<Longrightarrow> \<not> Q c
   \<Longrightarrow> length (filter Q xs) < length (filter P xs)"
proof (induction xs)
  case Nil
  then show ?case by simp
next
  case (Cons x xs)
  have mono: "length (filter Q xs) \<le> length (filter P xs)"
    using Cons.prems(1) by (intro length_filter_mono) simp
  have hd: "Q x \<Longrightarrow> P x" using Cons.prems(1) by simp
  show ?case
  proof (cases "c = x")
    case True
    then show ?thesis using Cons.prems(3,4) mono by simp
  next
    case False
    then have "c \<in> set xs" using Cons.prems(2) by simp
    then have "length (filter Q xs) < length (filter P xs)"
      using Cons.IH Cons.prems by simp
    then show ?thesis using hd by auto
  qed
qed

lemma topUpShift_not_Blank: "topUpShift g d i \<noteq> Blank"
  by (simp add: topUpShift_def Let_def)

lemma getShift_gen_setShift:
  "getShift_gen (setShift g d i v) d' j =
     (if dateOf g d' = dateOf g d \<and> j = i \<and> writable g d i then v else getShift_gen g d' j)"
  by (simp add: getShift_gen_def cell_setShift orBlank_def)

lemma blank_cell_writable:
  assumes "hasCell (schedule_g g) (dateOf g d) i" and "getShift_gen g d i = Blank"
  shows "writable g d i"
  using assms
  by (auto simp: writable_def hasCell_def getShift_gen_def orBlank_def Let_def split: option.splits)

lemma frame_staff: "frame g0 g \<Longrightarrow> staff_g g = staff_g g0"
  by (simp add: frame_def)

lemma frame_daysInMonth: "frame g0 g \<Longrightarrow> daysInMonth g = daysInMonth g0"
  by (simp add: frame_def)

lemma wellFormed_hasCell:
  "wellFormed g \<Longrightarrow> d \<in> {1 .. daysInMonth g} \<Longrightarrow> s \<in> set (staff_g g)
   \<Longrightarrow> hasCell (schedule_g g) (dateOf g d) (id_staff s)"
  by (simp add: wellFormed_def)

lemma totalCountLoop_stop:
  "countWorkingStaff g d \<ge> 8 \<or> availableStaff g d = [] \<Longrightarrow> totalCountLoop d g = ret g"
  apply (subst totalCountLoop.simps)
  apply (simp only: ret_def split: if_splits)
  apply blast
  done

lemma totalCountLoop_step:
  "\<not> countWorkingStaff g d \<ge> 8 \<Longrightarrow> availableStaff g d \<noteq> [] \<Longrightarrow>
   sortBy (byBurden g) (availableStaff g d) = c # rest \<Longrightarrow>
   totalCountLoop d g
   = totalCountLoop d (setShift g d (id_staff c) (topUpShift g d (id_staff c)))"
  apply (subst totalCountLoop.simps)
  apply (simp only: if_False list.case)
  done

lemma totalCountLoop_returns:
  assumes wf0: "wellFormed g0" and d: "d \<in> {1 .. daysInMonth g0}"
  shows "frame g0 g \<Longrightarrow> returnsWith (frame g0) (totalCountLoop d g)"
proof (induction g rule: measure_induct_rule[where f="\<lambda>g. length (filter
          (\<lambda>s. getShift_gen g d (id_staff s) = Blank) (staff_g g))"])
  case (less g)
  have fr: "frame g0 g" by (rule less.prems)
  have wf: "wellFormed g" using frame_wellFormed[OF fr wf0] .
  have dg: "d \<in> {1 .. daysInMonth g}" using d frame_daysInMonth[OF fr] by simp
  show ?case
  proof (cases "countWorkingStaff g d \<ge> 8 \<or> availableStaff g d = []")
    case True
    then show ?thesis
      using fr by (simp add: totalCountLoop_stop)
  next
    case False
    then obtain c rest where srt: "sortBy (byBurden g) (availableStaff g d) = c # rest"
      by (cases "sortBy (byBurden g) (availableStaff g d)") auto
    have "c \<in> set (sortBy (byBurden g) (availableStaff g d))" using srt by simp
    then have cav: "c \<in> set (availableStaff g d)" by simp
    then have cst: "c \<in> set (staff_g g)" and cbl: "getShift_gen g d (id_staff c) = Blank"
      by (auto simp: availableStaff_def)
    let ?g' = "setShift g d (id_staff c) (topUpShift g d (id_staff c))"
    have w: "writable g d (id_staff c)"
      using blank_cell_writable[OF wellFormed_hasCell[OF wf dg cst] cbl] .
    have fr': "frame g0 ?g'" using fr by (rule frame_setShift')
    have "length (filter (\<lambda>s. getShift_gen ?g' d (id_staff s) = Blank) (staff_g g))
          < length (filter (\<lambda>s. getShift_gen g d (id_staff s) = Blank) (staff_g g))"
    proof (rule length_filter_strict[where c=c])
      show "c \<in> set (staff_g g)" by (rule cst)
      show "getShift_gen g d (id_staff c) = Blank" by (rule cbl)
      show "getShift_gen ?g' d (id_staff c) \<noteq> Blank"
        using w by (simp add: getShift_gen_setShift topUpShift_not_Blank)
      show "\<And>x. x \<in> set (staff_g g) \<Longrightarrow> getShift_gen ?g' d (id_staff x) = Blank
                \<Longrightarrow> getShift_gen g d (id_staff x) = Blank"
        by (simp add: getShift_gen_setShift topUpShift_not_Blank split: if_splits)
    qed
    then have "returnsWith (frame g0) (totalCountLoop d ?g')"
      using less.IH[of ?g'] fr' by simp
    then show ?thesis
      using False totalCountLoop_step[OF _ _ srt] by simp
  qed
qed

lemma phase6_Day_returns:
  assumes wf0: "wellFormed g0" and d: "d \<in> {1 .. daysInMonth g0}" and fr: "frame g0 g"
  shows "returnsWith (frame g0) (phase6_Day d g)"
proof -
  have "frame g0 (fold (patternMinimum d) SHIFT_PATTERNS g)"
    using fr by (rule frame_patternMinimums)
  then have "returnsWith (frame g0) (totalCountLoop d (fold (patternMinimum d) SHIFT_PATTERNS g))"
    by (rule totalCountLoop_returns[OF wf0 d])
  then show ?thesis
    unfolding phase6_Day_def using fr by simp
qed

lemma phase6_returns:
  assumes wf: "wellFormed g"
  shows "returnsWith (frame g) (phase6_MinCountAdjustment g)"
  unfolding phase6_MinCountAdjustment_def
proof (rule returnsWith_foldR[where I="frame g"])
  show "frame g g" by simp
next
  fix x s
  assume "x \<in> set [1 .. daysInMonth g]" and "frame g s"
  then show "returnsWith (frame g) (phase6_Day x s)"
    using phase6_Day_returns[OF wf, of x s] by simp
qed

subsection \<open>Phase 7\<close>

lemma find_Some_set: "find P xs = Some x \<Longrightarrow> x \<in> set xs \<and> P x"
  by (induction xs) (auto split: if_splits)

lemma tryReassignBStaff_returns:
  assumes fr: "frame g0 g"
  shows "returnsWith (\<lambda>r. frame g0 (fst r)) (tryReassignBStaff g d p m)"
proof (cases "countPattern g d p \<ge> m")
  case True
  then show ?thesis using fr by (simp add: tryReassignBStaff_def)
next
  case False
  let ?bStaff = "filter
                 (\<lambda>s. if position s = Enchou \<or> position s = Shunin then False
                       else if shiftType s \<noteq> Regular then False
                       else cell (schedule_g g) (dateOf g d) (id_staff s) = Some B) (staff_g g)"
  show ?thesis
  proof (cases "find (\<lambda>s. \<not> constraintsBlock g d (id_staff s) p False)
                  (sortBy (byPattern g p) ?bStaff)")
    case None
    then show ?thesis using False fr by (simp add: tryReassignBStaff_def Let_def)
  next
    case (Some s)
    have "s \<in> set (sortBy (byPattern g p) ?bStaff)"
      using find_Some_set[OF Some] by (rule conjunct1)
    then have "s \<in> set ?bStaff" by (simp only: set_sortBy)
    then have c: "cell (schedule_g g) (dateOf g d) (id_staff s) = Some B"
      by (auto split: if_splits)
    then have "hasCell (schedule_g g) (dateOf g d) (id_staff s)"
      by (simp add: hasCell_def)
    then have row: "hasRow (schedule_g g) (dateOf g d)" by (rule hasCell_hasRow)
    have "frame g (g\<lparr>schedule_g := putCell (schedule_g g) (dateOf g d) (id_staff s) p\<rparr>)"
      using c by (intro frame_putCell) simp_all
    then have "frame g0 (g\<lparr>schedule_g := putCell (schedule_g g) (dateOf g d) (id_staff s) p\<rparr>)"
      using fr frame_trans by blast
    then show ?thesis
      using False Some writeCell_putCell[OF row]
      by (simp add: tryReassignBStaff_def Let_def bindR_def ret_def returnsWith_def)
  qed
qed

lemma assignIfShort_returns:
  assumes fr: "frame g0 (fst st)"
  shows "returnsWith (\<lambda>r. frame g0 (fst (fst r))) (assignIfShort chief d p m st)"
proof -
  obtain g bc where st: "st = (g, bc)" by (cases st)
  have g: "frame g0 g" using fr st by simp
  show ?thesis
    unfolding assignIfShort_def st prod.case
    by (rule returnsWith_bindR[OF tryReassignBStaff_returns[OF g]])
       (auto simp: Let_def intro: frame_setShift')
qed

lemma shortageChain_returns:
  "frame g0 (fst st) \<Longrightarrow>
   returnsWith (\<lambda>r. frame g0 (fst (fst r))) (shortageChain chief d pms st)"
proof (induction pms arbitrary: st)
  case Nil
  then show ?case by simp
next
  case (Cons pm pms)
  obtain p m where pm: "pm = (p, m)" by (cases pm)
  have ih: "\<And>a b. frame g0 a \<Longrightarrow>
      returnsWith (\<lambda>r. frame g0 (fst (fst r))) (shortageChain chief d pms (a, b))"
    using Cons.IH by simp
  show ?case
    unfolding pm shortageChain.simps
    by (rule returnsWith_bindR[OF assignIfShort_returns[OF Cons.prems]])
       (auto intro: ih)
qed

lemma phase7_Day_returns:
  assumes fr: "frame g0 (fst st)"
  shows "returnsWith (\<lambda>st'. frame g0 (fst st')) (phase7_Day chief d st)"
proof -
  obtain g bc where st: "st = (g, bc)" by (cases st)
  have g: "frame g0 g" using fr st by simp
  have chain: "returnsWith (\<lambda>st'. frame g0 (fst st'))
     (bindR (shortageChain chief d [(A, 2), (J, 2), (D, 1), (E, 1), (C, 1)] (g, bc))
          (\<lambda>((g1, backupCount1), assigned).
             if assigned then ret (g1, backupCount1)
             else if countWorkingStaff g1 d < 8
             then ret (setShift g1 d (id_staff chief) B, backupCount1 + 1)
             else if getShift_gen g1 d (id_staff chief) = Blank
             then ret (setShift g1 d (id_staff chief) Kyuu, backupCount1)
             else ret (g1, backupCount1)))"
    by (rule returnsWith_bindR[OF shortageChain_returns[where ?g0.0=g0]])
       (auto simp: g intro: frame_setShift')
  show ?thesis
    unfolding phase7_Day_def st prod.case
    using chain g by (auto intro: frame_setShift')
qed

lemma phase7_returns: "returnsWith (frame g) (phase7_ChiefBackup g)"
proof (cases "find (\<lambda>s. position s = Shunin) (staff_g g)")
  case None
  then show ?thesis by (simp add: phase7_ChiefBackup_def)
next
  case (Some chief)
  have "returnsWith (\<lambda>st'. frame g (fst st'))
          (foldR (phase7_Day chief) [1 .. daysInMonth g] (g, 0))"
    by (rule returnsWith_foldR[where I="\<lambda>st'. frame g (fst st')"])
       (auto intro: phase7_Day_returns)
  then show ?thesis
    unfolding phase7_ChiefBackup_def Some option.case
    by (rule returnsWith_bindR) auto
qed

subsection \<open>Around the fallible phases\<close>

lemma frame_front:
  "frame g (phase3_Saturday rnd (phase2_5_Cooking (phase2_Chief (phase1_Director g))))"
  by (rule frame_phase3, rule frame_phase2_5, rule frame_phase2, rule frame_phase1, rule frame_refl)

lemma frame_middle: "frame g g4 \<Longrightarrow> frame g (phase5_PartTime (phase4_5_LateShiftCoverage g4))"
  unfolding phase5_PartTime_def by (rule frame_phase4_5)

lemma phase4_returns':
  assumes "wellFormed g" and "frame g g3"
  shows "returnsWith (frame g) (phase4_RegularWeekday rnd g3)"
  by (rule returnsWith_mono[OF phase4_returns[OF frame_wellFormed[OF assms(2,1)]]])
     (rule frame_trans[OF assms(2)])

lemma phase6_returns':
  assumes "wellFormed g" and "frame g g5"
  shows "returnsWith (frame g) (phase6_MinCountAdjustment g5)"
  by (rule returnsWith_mono[OF phase6_returns[OF frame_wellFormed[OF assms(2,1)]]])
     (rule frame_trans[OF assms(2)])

lemma phase7_returns':
  assumes "frame g g6"
  shows "returnsWith (frame g) (phase7_ChiefBackup g6)"
  by (rule returnsWith_mono[OF phase7_returns]) (rule frame_trans[OF assms])

subsection \<open>Constructor\<close>

lemma fold_update_other:
  "k \<notin> kf ` set xs
   \<Longrightarrow> map_of (fold (\<lambda>x al. AList.update (kf x) (vf x) al) xs al) k = map_of al k"
  by (induction xs arbitrary: al) (auto simp: update_conv')

lemma fold_update_defined:
  "k \<in> kf ` set xs
   \<Longrightarrow> map_of (fold (\<lambda>x al. AList.update (kf x) (vf x) al) xs al) k \<noteq> None"
proof (induction xs arbitrary: al)
  case Nil
  then show ?case by simp
next
  case (Cons x xs)
  show ?case
  proof (cases "k \<in> kf ` set xs")
    case True
    then show ?thesis using Cons.IH by simp
  next
    case False
    then have "k = kf x" using Cons.prems by auto
    then show ?thesis using False by (simp add: fold_update_other update_conv')
  qed
qed

lemma fold_update_const:
  "k \<in> kf ` set xs \<Longrightarrow> (\<And>x. x \<in> set xs \<Longrightarrow> kf x = k \<Longrightarrow> vf x = v)
   \<Longrightarrow> map_of (fold (\<lambda>x al. AList.update (kf x) (vf x) al) xs al) k = Some v"
proof (induction xs arbitrary: al)
  case Nil
  then show ?case by simp
next
  case (Cons x xs)
  show ?case
  proof (cases "k \<in> kf ` set xs")
    case True
    then show ?thesis using Cons.IH Cons.prems(2) by simp
  next
    case False
    then have "k = kf x" using Cons.prems(1) by auto
    then show ?thesis using False Cons.prems(2) by (simp add: fold_update_other update_conv')
  qed
qed

lemma getFormattedDate_inj [simp]:
  "getFormattedDate y m d = getFormattedDate y' m' d' \<longleftrightarrow> y = y' \<and> m = m' \<and> d = d'"
  by (simp add: getFormattedDate_def)

lemma initialCell_protected:
  assumes "cell cur k (id_staff s) = Some v" and "v = Yuu \<or> v = Furi"
  shows "initialCell cur k s = v"
  using assms by (auto simp: initialCell_def Let_def orBlank_def)

lemma initialRow_defined:
  "s \<in> set ss \<Longrightarrow> map_of (initialRow cur k ss) (id_staff s) \<noteq> None"
  unfolding initialRow_def
  by (rule fold_update_defined) simp

lemma initialRow_protected:
  assumes "s \<in> set ss" and "cell cur k (id_staff s) = Some v" and "v = Yuu \<or> v = Furi"
  shows "map_of (initialRow cur k ss) (id_staff s) = Some v"
  unfolding initialRow_def
proof (rule fold_update_const)
  show "id_staff s \<in> id_staff ` set ss" using assms(1) by simp
next
  fix x assume "x \<in> set ss" and "id_staff x = id_staff s"
  then show "initialCell cur k x = v"
    using initialCell_protected[of cur k x v] assms(2,3) by simp
qed

lemma newShiftGenerator_row:
  assumes "d \<in> {1 .. getDaysInMonth y m}"
  shows "map_of (schedule_g (newShiftGenerator ss hs y m st cur trs)) (getFormattedDate y m d)
         = Some (initialRow cur (getFormattedDate y m d) ss)"
proof -
  have "map_of (fold (\<lambda>x al. AList.update (getFormattedDate y m x)
                        (initialRow cur (getFormattedDate y m x) ss) al)
          [1 .. getDaysInMonth y m] []) (getFormattedDate y m d)
        = Some (initialRow cur (getFormattedDate y m d) ss)"
  proof (rule fold_update_const)
    show "getFormattedDate y m d \<in> getFormattedDate y m ` set [1 .. getDaysInMonth y m]"
      using assms by simp
  next
    fix x assume "getFormattedDate y m x = getFormattedDate y m d"
    then show "initialRow cur (getFormattedDate y m x) ss
               = initialRow cur (getFormattedDate y m d) ss" by simp
  qed
  then show ?thesis
    by (simp add: newShiftGenerator_def)
qed

lemma newShiftGenerator_fields [simp]:
  "staff_g (newShiftGenerator ss hs y m st cur trs) = ss"
  "holidays_g (newShiftGenerator ss hs y m st cur trs) = hs"
  "year_g (newShiftGenerator ss hs y m st cur trs) = y"
  "month_g (newShiftGenerator ss hs y m st cur trs) = m"
  "daysInMonth (newShiftGenerator ss hs y m st cur trs) = getDaysInMonth y m"
  by (simp_all add: newShiftGenerator_def)

lemma newShiftGenerator_wellFormed:
  "wellFormed (newShiftGenerator ss hs y m st cur trs)"
  unfolding wellFormed_def
  by (auto simp: hasRow_def hasCell_def cell_def dateOf_def newShiftGenerator_row
                 initialRow_defined)

lemma newShiftGenerator_protected:
  assumes "d \<in> {1 .. getDaysInMonth y m}" and "s \<in> set ss"
    and "cell cur (getFormattedDate y m d) (id_staff s) = Some v" and "v = Yuu \<or> v = Furi"
  shows "cell (schedule_g (newShiftGenerator ss hs y m st cur trs)) (getFormattedDate y m d)
           (id_staff s) = Some v"
  using initialRow_protected[OF assms(2,3,4)]
  by (simp add: cell_def newShiftGenerator_row[OF assms(1)])

subsection \<open>All phases\<close>

lemma runPhases_shape:
  assumes wf: "wellFormed g"
  shows "returnsWith (\<lambda>gf. \<exists>g9. frame g g9 \<and> gf = finalSafetyFill (phase10_Validation g9))
           (runPhases rnd g)"
  unfolding runPhases_def
proof (rule returnsWith_bindR[OF phase4_returns'[OF wf frame_front]])
  fix g4 assume f4: "frame g g4"
  show "returnsWith (\<lambda>gf. \<exists>g9. frame g g9 \<and> gf = finalSafetyFill (phase10_Validation g9))
           (bindR (phase6_MinCountAdjustment (phase5_PartTime (phase4_5_LateShiftCoverage g4)))
             (\<lambda>g6. bindR (phase7_ChiefBackup g6)
               (\<lambda>g7. ret (finalSafetyFill
                    (phase10_Validation (phase9_FillEmpty (phase8_CompensatoryOff g7)))))))"
  proof (rule returnsWith_bindR[OF phase6_returns'[OF wf frame_middle[OF f4]]])
    fix g6 assume f6: "frame g g6"
    show "returnsWith (\<lambda>gf. \<exists>g9. frame g g9 \<and> gf = finalSafetyFill (phase10_Validation g9))
             (bindR (phase7_ChiefBackup g6)
               (\<lambda>g7. ret (finalSafetyFill
                    (phase10_Validation (phase9_FillEmpty (phase8_CompensatoryOff g7))))))"
    proof (rule returnsWith_bindR[OF phase7_returns'[OF f6]])
      fix g7 assume "frame g g7"
      then have "frame g (phase9_FillEmpty (phase8_CompensatoryOff g7))"
        unfolding phase8_CompensatoryOff_def by (rule frame_phase9)
      then show "returnsWith
          (\<lambda>gf. \<exists>g9. frame g g9 \<and> gf = finalSafetyFill (phase10_Validation g9))
          (ret (finalSafetyFill
                    (phase10_Validation (phase9_FillEmpty (phase8_CompensatoryOff g7)))))"
        unfolding returnsWith_ret by blast
    qed
  qed
qed

lemma generate_returns:
  "returnsWith (\<lambda>out. \<exists>g9. frame (newShiftGenerator ss hs y m st cur trs) g9
           \<and> out = schedule_g (finalSafetyFill (phase10_Validation g9)))
     (generate rnd ss hs y m st cur trs)"
  unfolding generate_def
  by (rule returnsWith_bindR[OF runPhases_shape[OF newShiftGenerator_wellFormed]]) auto

lemma generate_shape:
  assumes "generate rnd ss hs y m st cur trs = Some (Inr out)"
  shows "\<exists>g9. frame (newShiftGenerator ss hs y m st cur trs) g9
           \<and> out = schedule_g (finalSafetyFill (phase10_Validation g9))"
  using generate_returns[of ss hs y m st cur trs rnd] assms by (simp add: returnsWith_def)

subsection \<open>The final fill\<close>

lemma fold_establishes:
  assumes est: "\<And>x s. x \<in> set xs \<Longrightarrow> Q x (f x s)"
    and pres: "\<And>x y s. Q y s \<Longrightarrow> Q y (f x s)"
  shows "y \<in> set xs \<Longrightarrow> Q y (fold f xs s)"
  using est
proof (induction xs arbitrary: s)
  case Nil
  then show ?case by simp
next
  case (Cons x xs)
  show ?case
  proof (cases "y \<in> set xs")
    case True
    then show ?thesis using Cons.IH Cons.prems(2) by simp
  next
    case False
    then have "y = x" using Cons.prems(1) by simp
    then have "Q y (f x s)" using Cons.prems(2) by simp
    then have "Q y (fold f xs (f x s))"
      by (rule fold_inv[where P="Q y"]) (rule pres)
    then show ?thesis by simp
  qed
qed

lemma fills_filled: "fills sch sch' \<Longrightarrow> filled sch k i \<Longrightarrow> filled sch' k i"
  using fills_cell[of sch sch' k i] by (auto simp: filled_def)

lemma fillCell_filled:
  "shiftType s \<noteq> Part_time \<Longrightarrow> filled (fillCell k s sch) k (id_staff s)"
  by (auto simp: fillCell_def filled_def Let_def cell_putCell)

lemma fillDay_filled:
  assumes "s \<in> set (staff_g g)" and "shiftType s \<noteq> Part_time"
  shows "filled (fillDay g d sch) (dateOf g d) (id_staff s)"
proof -
  have "shiftType s \<noteq> Part_time \<longrightarrow>
        filled (fold (fillCell (dateOf g d)) (staff_g g) (ensureRow sch (dateOf g d)))
          (dateOf g d) (id_staff s)"
  proof (rule fold_establishes[where Q="\<lambda>s sch. shiftType s \<noteq> Part_time \<longrightarrow>
            filled sch (dateOf g d) (id_staff s)", OF _ _ assms(1)])
    show "\<And>x s. x \<in> set (staff_g g) \<Longrightarrow>
        shiftType x \<noteq> Part_time \<longrightarrow> filled (fillCell (dateOf g d) x s) (dateOf g d) (id_staff x)"
      by (simp add: fillCell_filled)
    show "\<And>x y s. shiftType y \<noteq> Part_time \<longrightarrow> filled s (dateOf g d) (id_staff y) \<Longrightarrow>
        shiftType y \<noteq> Part_time \<longrightarrow> filled (fillCell (dateOf g d) x s) (dateOf g d) (id_staff y)"
      using fills_filled[OF fills_fillCell] by blast
  qed
  then show ?thesis using assms(2) by (simp add: fillDay_def)
qed

lemma fold_fillDay_filled:
  assumes "d \<in> set ds" and "s \<in> set (staff_g g)" and "shiftType s \<noteq> Part_time"
  shows "filled (fold (fillDay g) ds sch) (dateOf g d) (id_staff s)"
proof (rule fold_establishes[where Q="\<lambda>d sch. filled sch (dateOf g d) (id_staff s)", OF _ _ assms(1)])
  show "\<And>x sch. x \<in> set ds \<Longrightarrow> filled (fillDay g x sch) (dateOf g x) (id_staff s)"
    using fillDay_filled[OF assms(2,3)] by simp
  show "\<And>x y sch. filled sch (dateOf g y) (id_staff s) \<Longrightarrow>
           filled (fillDay g x sch) (dateOf g y) (id_staff s)"
    using fills_filled[OF fills_fillDay] by blast
qed

lemma finalSafetyFill_filled:
  assumes "d \<in> {1 .. daysInMonth g}" and "s \<in> set (staff_g g)" and "shiftType s \<noteq> Part_time"
  shows "filled (schedule_g (finalSafetyFill g)) (dateOf g d) (id_staff s)"
  unfolding finalSafetyFill_def using assms
  by (simp add: fold_fillDay_filled)

lemma frame_phase10_self: "frame g (phase10_Validation g)"
  by (rule frame_phase10) simp

subsection \<open>Phase 10 and adjacent work days\<close>

declare prevWorkDayFrom_gen.simps [simp del]

lemma prevWorkDayFrom_gen_bounds:
  "prevWorkDayFrom_gen g e = 0 \<or> (1 \<le> prevWorkDayFrom_gen g e \<and> prevWorkDayFrom_gen g e \<le> e)"
proof (induction g e rule: prevWorkDayFrom_gen.induct)
  case (1 g d)
  show ?case
    using 1 by (subst (1 2 3) prevWorkDayFrom_gen.simps) auto
qed

lemma getPreviousWorkDay_gen_less:
  "getPreviousWorkDay_gen g d \<noteq> 0 \<Longrightarrow>
     1 \<le> getPreviousWorkDay_gen g d \<and> getPreviousWorkDay_gen g d < d"
  using prevWorkDayFrom_gen_bounds[of g "d - 1"] by (auto simp: getPreviousWorkDay_gen_def)

lemma prevWorkDayFrom_gen_cong:
  "isHoliday_gen g = isHoliday_gen g' \<Longrightarrow> prevWorkDayFrom_gen g e = prevWorkDayFrom_gen g' e"
proof (induction g e rule: prevWorkDayFrom_gen.induct)
  case (1 g d)
  show ?case
    using 1 by (subst prevWorkDayFrom_gen.simps, subst (2) prevWorkDayFrom_gen.simps) auto
qed

lemma frame_isHoliday: "frame g g' \<Longrightarrow> isHoliday_gen g' = isHoliday_gen g"
  by (auto simp: frame_def isHoliday_gen_def dateOf_def fun_eq_iff)

lemma frame_prevWorkDay: "frame g g' \<Longrightarrow> getPreviousWorkDay_gen g' = getPreviousWorkDay_gen g"
  using prevWorkDayFrom_gen_cong[OF frame_isHoliday] by (auto simp: getPreviousWorkDay_gen_def fun_eq_iff)

lemma prevWorkDayFrom_gen_found:
  "1 \<le> p \<Longrightarrow> \<not> isHoliday_gen g p \<Longrightarrow> p \<le> e
   \<Longrightarrow> (\<forall>z. p < z \<and> z \<le> e \<longrightarrow> isHoliday_gen g z) \<Longrightarrow> prevWorkDayFrom_gen g e = p"
proof (induction g e rule: prevWorkDayFrom_gen.induct)
  case (1 g d)
  show ?case
  proof (cases "d = p")
    case True
    then show ?thesis using 1(2,3) by (subst prevWorkDayFrom_gen.simps) auto
  next
    case False
    then have lt: "p < d" using 1(4) by simp
    then have hol: "isHoliday_gen g d" and pos: "d > 0" using 1(5) 1(2) by auto
    have "prevWorkDayFrom_gen g (d - 1) = p"
      using 1(1)[OF pos _ 1(2,3)] hol lt 1(5) by auto
    then show ?thesis using hol pos by (subst prevWorkDayFrom_gen.simps) auto
  qed
qed

lemma dateOf_inj [simp]: "dateOf g d = dateOf g d' \<longleftrightarrow> d = d'"
  by (simp add: dateOf_def)

lemma getShift_gen_setShift_day:
  "getShift_gen (setShift g d i v) d' j =
     (if d' = d \<and> j = i \<and> writable g d i then v else getShift_gen g d' j)"
  by (simp add: getShift_gen_setShift)

lemma phase10_Staff_getShift:
  "getShift_gen (phase10_Staff d p s g) d' j =
     (if d' = d \<and> j = id_staff s \<and> shiftType s \<noteq> Part_time
         \<and> badPair (getShift_gen g p (id_staff s)) (getShift_gen g d (id_staff s))
         \<and> writable g d (id_staff s)
      then B else getShift_gen g d' j)"
  by (auto simp: phase10_Staff_def Let_def badPair_def getShift_gen_setShift_day)

text \<open>With pairwise distinct ids the lookup by id returns the roster entry itself.\<close>

lemma findStaff_distinct:
  "distinct (map id_staff ss) \<Longrightarrow> s \<in> set ss \<Longrightarrow> findStaff ss (id_staff s) = Some s"
  unfolding findStaff_def
  by (induction ss) (auto simp: image_iff)

lemma findStaff_id: "findStaff ss i = Some f \<Longrightarrow> f \<in> set ss \<and> id_staff f = i"
  unfolding findStaff_def by (rule find_Some_set)

lemma writable_bad:
  assumes "findStaff (staff_g g) i = Some f" and "shiftType f \<noteq> Part_time"
    and "badPair x (getShift_gen g d i)"
  shows "writable g d i"
proof -
  have "\<not> isPartTimer g i"
    using assms(1,2) by (simp add: isPartTimer_def)
  moreover have "getShift_gen g d i = A \<or> getShift_gen g d i = J"
    using assms(3) by (auto simp: badPair_def)
  then have "cell (schedule_g g) (dateOf g d) i \<noteq> Some Yuu
             \<and> cell (schedule_g g) (dateOf g d) i \<noteq> Some Furi"
    by (auto simp: getShift_gen_def orBlank_def)
  ultimately show ?thesis by (simp add: writable_def Let_def)
qed

lemma fold_establishes_sorted:
  fixes xs :: "int list"
  assumes inv: "\<And>x s. I s \<Longrightarrow> I (f x s)"
    and est: "\<And>x s. x \<in> set xs \<Longrightarrow> I s \<Longrightarrow> Q x (f x s)"
    and pres: "\<And>x y s. y < x \<Longrightarrow> I s \<Longrightarrow> Q y s \<Longrightarrow> Q y (f x s)"
  shows "sorted_wrt (<) xs \<Longrightarrow> I s \<Longrightarrow> y \<in> set xs \<Longrightarrow> Q y (fold f xs s)"
  using est
proof (induction xs arbitrary: s)
  case Nil
  then show ?case by simp
next
  case (Cons x xs)
  have Ifx: "I (f x s)" using Cons.prems(2) by (rule inv)
  show ?case
  proof (cases "y = x")
    case True
    have gt: "\<And>z. z \<in> set xs \<Longrightarrow> y < z" using Cons.prems(1) True by simp
    have start: "I (f x s) \<and> Q y (f x s)"
      using Ifx Cons.prems(2,4) True by simp
    have "I (fold f xs (f x s)) \<and> Q y (fold f xs (f x s))"
      by (rule fold_inv[where P="\<lambda>s. I s \<and> Q y s", OF start]) (auto intro: inv pres gt)
    then show ?thesis by simp
  next
    case False
    then have "y \<in> set xs" using Cons.prems(3) by simp
    moreover have "sorted_wrt (<) xs" using Cons.prems(1) by simp
    ultimately have "Q y (fold f xs (f x s))"
      using Cons.IH[OF _ Ifx] Cons.prems(4) by simp
    then show ?thesis by simp
  qed
qed

lemma fold_establishes_inv:
  assumes inv: "\<And>x s. I s \<Longrightarrow> I (f x s)"
    and est: "\<And>x s. x \<in> set xs \<Longrightarrow> I s \<Longrightarrow> Q x (f x s)"
    and pres: "\<And>x y s. I s \<Longrightarrow> Q y s \<Longrightarrow> Q y (f x s)"
  shows "I s \<Longrightarrow> y \<in> set xs \<Longrightarrow> Q y (fold f xs s)"
  using est
proof (induction xs arbitrary: s)
  case Nil
  then show ?case by simp
next
  case (Cons x xs)
  have Ifx: "I (f x s)" using Cons.prems(1) by (rule inv)
  show ?case
  proof (cases "y \<in> set xs")
    case True
    then have "Q y (fold f xs (f x s))"
      using Cons.IH[OF Ifx] Cons.prems(3) by simp
    then show ?thesis by simp
  next
    case False
    then have "y = x" using Cons.prems(2) by simp
    then have start: "I (f x s) \<and> Q y (f x s)"
      using Ifx Cons.prems(1,3) by simp
    have "I (fold f xs (f x s)) \<and> Q y (fold f xs (f x s))"
      by (rule fold_inv[where P="\<lambda>s. I s \<and> Q y s", OF start]) (auto intro: inv pres)
    then show ?thesis by simp
  qed
qed

lemma sorted_wrt_upto: "sorted_wrt (<) [i .. j :: int]"
  by (simp add: strict_sorted_iff)

lemma phase10_Day_other:
  "d' \<noteq> d \<Longrightarrow> getShift_gen (phase10_Day d g) d' j = getShift_gen g d' j"
  unfolding phase10_Day_def Let_def
  by (auto intro!: fold_inv[where P="\<lambda>g'. getShift_gen g' d' j = getShift_gen g d' j"]
           simp: phase10_Staff_getShift)

lemma frame_phase10_Staff_self: "frame g (phase10_Staff d p s g)"
  by (rule frame_phase10_Staff) simp

lemma phase10_Staff_fold_establishes:
  assumes found: "findStaff (staff_g g) i = Some f"
    and npt: "shiftType f \<noteq> Part_time" and pd: "p \<noteq> d"
  shows "\<not> badPair (getShift_gen (fold (phase10_Staff d p) (staff_g g) g) p i)
                   (getShift_gen (fold (phase10_Staff d p) (staff_g g) g) d i)"
proof -
  have f: "f \<in> set (staff_g g)" and fi: "id_staff f = i"
    using findStaff_id[OF found] by simp_all
  let ?Q = "\<lambda>x g'. x = f \<longrightarrow> \<not> badPair (getShift_gen g' p i) (getShift_gen g' d i)"
  have "?Q f (fold (phase10_Staff d p) (staff_g g) g)"
  proof (rule fold_establishes_inv[where I="frame g" and Q="?Q"])
    show "frame g g" by simp
    show "f \<in> set (staff_g g)" by (rule f)
    show "\<And>x g'. frame g g' \<Longrightarrow> frame g (phase10_Staff d p x g')"
      by (rule frame_phase10_Staff)
  next
    fix x g' assume x: "x \<in> set (staff_g g)" and fr: "frame g g'"
    have st: "staff_g g' = staff_g g" using fr by (rule frame_staff)
    show "?Q x (phase10_Staff d p x g')"
    proof
      assume xf: "x = f"
      show "\<not> badPair (getShift_gen (phase10_Staff d p x g') p i)
                      (getShift_gen (phase10_Staff d p x g') d i)"
      proof (cases "badPair (getShift_gen g' p i) (getShift_gen g' d i)")
        case True
        have "writable g' d i"
          using writable_bad[of g' i f _ d] found npt True st by simp
        then show ?thesis
          using True npt pd xf fi by (simp add: phase10_Staff_getShift badPair_def)
      next
        case False
        then show ?thesis using pd by (auto simp: phase10_Staff_getShift badPair_def)
      qed
    qed
  next
    fix x y g' assume "frame g g'" and q: "?Q y g'"
    show "?Q y (phase10_Staff d p x g')"
      using q pd by (auto simp: phase10_Staff_getShift badPair_def)
  qed
  then show ?thesis by simp
qed

lemma phase10_Day_establishes:
  assumes found: "findStaff (staff_g g) i = Some f" and npt: "shiftType f \<noteq> Part_time"
  shows "adjacentOK (phase10_Day d g) d i"
proof -
  have fr: "frame g (phase10_Day d g)" by (rule frame_phase10_Day) simp
  have h: "isHoliday_gen (phase10_Day d g) = isHoliday_gen g" using fr by (rule frame_isHoliday)
  have p: "getPreviousWorkDay_gen (phase10_Day d g) = getPreviousWorkDay_gen g"
    using fr by (rule frame_prevWorkDay)
  show ?thesis
  proof (cases "isHoliday_gen g d \<or> getPreviousWorkDay_gen g d = 0")
    case True
    then show ?thesis by (auto simp: adjacentOK_def h p)
  next
    case False
    then have pd: "getPreviousWorkDay_gen g d \<noteq> d"
      using getPreviousWorkDay_gen_less[of g d] by auto
    have eq: "phase10_Day d g = fold (phase10_Staff d (getPreviousWorkDay_gen g d)) (staff_g g) g"
      using False by (simp add: phase10_Day_def Let_def)
    show ?thesis
      unfolding adjacentOK_def p
      using phase10_Staff_fold_establishes[OF found npt pd] eq by simp
  qed
qed

lemma phase10_Day_preserves:
  assumes "y < x" and "adjacentOK g y i"
  shows "adjacentOK (phase10_Day x g) y i"
proof -
  have fr: "frame g (phase10_Day x g)" by (rule frame_phase10_Day) simp
  have h: "isHoliday_gen (phase10_Day x g) = isHoliday_gen g" using fr by (rule frame_isHoliday)
  have p: "getPreviousWorkDay_gen (phase10_Day x g) = getPreviousWorkDay_gen g"
    using fr by (rule frame_prevWorkDay)
  show ?thesis
  proof (cases "isHoliday_gen g y \<or> getPreviousWorkDay_gen g y = 0")
    case True
    then show ?thesis by (auto simp: adjacentOK_def h p)
  next
    case False
    then have "getPreviousWorkDay_gen g y < y"
      using getPreviousWorkDay_gen_less[of g y] by auto
    then have "getPreviousWorkDay_gen g y \<noteq> x" and "y \<noteq> x" using assms(1) by auto
    then show ?thesis
      using assms(2) by (simp add: adjacentOK_def h p phase10_Day_other)
  qed
qed

lemma phase10_Validation_adjacent:
  assumes found: "findStaff (staff_g g) i = Some f" and npt: "shiftType f \<noteq> Part_time"
    and d: "d \<in> {1 .. daysInMonth g}"
  shows "adjacentOK (phase10_Validation g) d i"
  unfolding phase10_Validation_def
proof (rule fold_establishes_sorted[where I="frame g"
          and Q="\<lambda>d g'. adjacentOK g' d i"])
  show "sorted_wrt (<) [1 .. daysInMonth g]" by (rule sorted_wrt_upto)
  show "frame g g" by simp
  show "d \<in> set [1 .. daysInMonth g]" using d by simp
  show "\<And>x g'. frame g g' \<Longrightarrow> frame g (phase10_Day x g')" by (rule frame_phase10_Day)
next
  fix x g' assume "frame g g'"
  then have "staff_g g' = staff_g g" by (rule frame_staff)
  then show "adjacentOK (phase10_Day x g') x i"
    using phase10_Day_establishes[of g' i f x] found npt by simp
next
  fix x y g' assume "y < x" and "adjacentOK g' y i"
  then show "adjacentOK (phase10_Day x g') y i" by (rule phase10_Day_preserves)
qed

lemma finalSafetyFill_getShift:
  "getShift_gen (finalSafetyFill g) d i = getShift_gen g d i
   \<or> (getShift_gen g d i = Blank \<and> getShift_gen (finalSafetyFill g) d i = Kyuu)"
proof -
  have "fills (schedule_g g) (schedule_g (finalSafetyFill g))"
    by (simp add: finalSafetyFill_def fills_fold_fillDay)
  from fills_cell[OF this, of "dateOf g d" i]
  show ?thesis
    by (auto simp: getShift_gen_def orBlank_def dateOf_def finalSafetyFill_def)
qed

lemma finalSafetyFill_adjacent:
  assumes "adjacentOK g d i"
  shows "adjacentOK (finalSafetyFill g) d i"
proof -
  have fr: "frame g (finalSafetyFill g)" by (rule frame_final) simp
  have h: "isHoliday_gen (finalSafetyFill g) = isHoliday_gen g" using fr by (rule frame_isHoliday)
  have p: "getPreviousWorkDay_gen (finalSafetyFill g) = getPreviousWorkDay_gen g"
    using fr by (rule frame_prevWorkDay)
  show ?thesis
    using assms finalSafetyFill_getShift[of g d i]
      finalSafetyFill_getShift[of g "getPreviousWorkDay_gen g d" i]
    by (auto simp: adjacentOK_def h p badPair_def)
qed

subsection \<open>The generated schedule\<close>

lemma generate_frame:
  assumes "generate rnd ss hs y m st cur trs = Some (Inr out)"
  shows "\<exists>g. out = schedule_g g \<and> frame (newShiftGenerator ss hs y m st cur trs) g"
proof -
  obtain g9 where "frame (newShiftGenerator ss hs y m st cur trs) g9"
    and "out = schedule_g (finalSafetyFill (phase10_Validation g9))"
    using generate_shape[OF assms] by blast
  then show ?thesis
    using frame_final[OF frame_phase10] by blast
qed

lemma isHoliday_gen_workDay:
  "isHoliday_gen g e \<longleftrightarrow> \<not> workDay (year_g g) (month_g g) (holidays_g g) e"
  by (simp add: isHoliday_gen_def workDay_def dateOf_def)

lemma generated_adjacent:
  assumes gen: "generate rnd ss hs y m st cur trs = Some (Inr out)"
    and found: "findStaff ss i = Some f" and npt: "shiftType f \<noteq> Part_time"
    and p1: "1 \<le> p" and pd: "p < d" and dn: "d \<le> getDaysInMonth y m"
    and wp: "workDay y m hs p" and wd: "workDay y m hs d"
    and between: "\<forall>e. p < e \<and> e < d \<longrightarrow> \<not> workDay y m hs e"
  shows "\<not> badPair (orBlank (cell out (getFormattedDate y m p) i))
                   (orBlank (cell out (getFormattedDate y m d) i))"
proof -
  let ?g0 = "newShiftGenerator ss hs y m st cur trs"
  obtain g9 where fr9: "frame ?g0 g9"
    and out: "out = schedule_g (finalSafetyFill (phase10_Validation g9))"
    using generate_shape[OF gen] by blast
  let ?gf = "finalSafetyFill (phase10_Validation g9)"
  have frf: "frame ?g0 ?gf"
    using fr9 by (intro frame_final frame_phase10)
  have st9: "staff_g g9 = ss" and dim9: "daysInMonth g9 = getDaysInMonth y m"
    using fr9 by (simp_all add: frame_def)
  have yf: "year_g ?gf = y" and mf: "month_g ?gf = m" and hf: "holidays_g ?gf = hs"
    using frf by (simp_all add: frame_def)
  have din: "d \<in> {1 .. daysInMonth g9}" using p1 pd dn dim9 by simp
  have "adjacentOK (phase10_Validation g9) d i"
    using phase10_Validation_adjacent[of g9 i f d] found npt din st9 by simp
  then have adj: "adjacentOK ?gf d i" by (rule finalSafetyFill_adjacent)
  have hol: "\<And>e. isHoliday_gen ?gf e \<longleftrightarrow> \<not> workDay y m hs e"
    using isHoliday_gen_workDay[of ?gf] yf mf hf by simp
  have prev: "getPreviousWorkDay_gen ?gf d = p"
    unfolding getPreviousWorkDay_gen_def
    using p1 wp pd between by (intro prevWorkDayFrom_gen_found) (auto simp: hol)
  have key: "\<And>e. dateOf ?gf e = getFormattedDate y m e"
    using yf mf by (simp add: dateOf_def)
  have "\<not> badPair (getShift_gen ?gf p i) (getShift_gen ?gf d i)"
    using adj prev wd p1 by (simp add: adjacentOK_def hol)
  then show ?thesis
    unfolding out by (simp add: getShift_gen_def key)
qed

lemma frame_protected:
  "frame g g' \<Longrightarrow> cell (schedule_g g) k i = Some Yuu \<or> cell (schedule_g g) k i = Some Furi
   \<Longrightarrow> cell (schedule_g g') k i = cell (schedule_g g) k i"
  unfolding frame_def by blast

subsection \<open>The example run\<close>

lemma getDaysInMonth_example: "getDaysInMonth 2024 2 = 29"
  by code_simp

lemma generate_example:
  "generate noRandom exampleRoster [] 2024 2 exampleSettings exampleExisting noTimeRanges
   = Some (Inr exampleGenerated)"
  by code_simp

section \<open>The claims about the constraint engine\<close>

text \<open>
  Claim C4, as stated, says that \<open>evaluateCandidates\<close> leaves out every regular or
  backup staff member who is on a leave code, the regular day off included. The code
  skips the paid leave and the compensatory day off only: a regular staff member on
  the regular day off is evaluated and returned.
\<close>

theorem C4_dayOff_counterexample:
  "shiftType (exampleStaff 1 Regular []) = Regular
   \<and> staff dayOffContext = [exampleStaff 1 Regular []]
   \<and> getShift dayOffContext 2 1 = Kyuu
   \<and> map staffId (evaluateCandidates dayOffContext 2 B) = [1]"
  by code_simp

text \<open>
  Claim C4, amended: \<open>evaluateCandidates\<close> considers exactly the staff whose shift
  type is regular or backup, leaves out those whose cell of the day holds the target
  shift, the paid leave or the compensatory day off (not the regular day off),
  evaluates each remaining one with \<open>checkConstraints\<close> (assignable when no violation
  is hard), and returns the evaluations ordered: assignable before non-assignable, and
  by ascending number of violations within each group.
\<close>

theorem C4_evaluateCandidates_ranking:
  "mset (evaluateCandidates ctx day t) =
     mset (map (evaluateOne ctx day t)
       (filter (\<lambda>s. (shiftType s = Regular \<or> shiftType s = Backup)
                   \<and> getShift ctx day (id_staff s) \<noteq> t
                   \<and> getShift ctx day (id_staff s) \<noteq> Yuu
                   \<and> getShift ctx day (id_staff s) \<noteq> Furi) (staff ctx)))
   \<and> (\<forall>e \<in> set (evaluateCandidates ctx day t).
         violations e = checkConstraints ctx day (staffId e) t
         \<and> isAssignable e = (\<not> list_ex (\<lambda>v. type_v v = Hard) (violations e)))
   \<and> sorted_wrt (\<lambda>a b. (isAssignable a \<or> \<not> isAssignable b) \<and>
         (isAssignable a = isAssignable b \<longrightarrow> length (violations a) \<le> length (violations b)))
       (evaluateCandidates ctx day t)"
proof (intro conjI)
  show "mset (evaluateCandidates ctx day t) =
     mset (map (evaluateOne ctx day t)
       (filter (\<lambda>s. (shiftType s = Regular \<or> shiftType s = Backup)
                   \<and> getShift ctx day (id_staff s) \<noteq> t
                   \<and> getShift ctx day (id_staff s) \<noteq> Yuu
                   \<and> getShift ctx day (id_staff s) \<noteq> Furi) (staff ctx)))"
    unfolding evaluateCandidates_def mset_sortBy eligibleStaff_def filter_filter
    by (rule arg_cong[where f="\<lambda>p. mset (map _ (filter p _))"])
       (auto simp: skipCandidate_def Let_def)
next
  have "set (evaluateCandidates ctx day t) \<subseteq> range (evaluateOne ctx day t)"
    unfolding evaluateCandidates_def by auto
  then show "\<forall>e \<in> set (evaluateCandidates ctx day t).
         violations e = checkConstraints ctx day (staffId e) t
         \<and> isAssignable e = (\<not> list_ex (\<lambda>v. type_v v = Hard) (violations e))"
    by (auto simp: evaluateOne_def Let_def hasHardViolation_def)
next
  show "sorted_wrt (\<lambda>a b. (isAssignable a \<or> \<not> isAssignable b) \<and>
         (isAssignable a = isAssignable b \<longrightarrow> length (violations a) \<le> length (violations b)))
       (evaluateCandidates ctx day t)"
    using sorted_candidates[of "map (evaluateOne ctx day t)
          (filter (\<lambda>s. \<not> skipCandidate ctx day t s) (eligibleStaff ctx))"]
    unfolding evaluateCandidates_def candidateOrder_le .
qed

text \<open>
  The ranking at a concrete context: two staff without a hard violation come before
  the one with the incompatibility, the one with no violation first.
\<close>

theorem C4_evaluateCandidates_ranking_witness:
  "map staffId (evaluateCandidates rankingContext 2 A) = [2, 3, 1]
   \<and> map isAssignable (evaluateCandidates rankingContext 2 A) = [True, True, False]
   \<and> sorted_wrt (\<lambda>a b. (isAssignable a \<or> \<not> isAssignable b) \<and>
         (isAssignable a = isAssignable b \<longrightarrow> length (violations a) \<le> length (violations b)))
       (evaluateCandidates rankingContext 2 A)"
proof -
  have "map staffId (evaluateCandidates rankingContext 2 A) = [2, 3, 1]"
    by code_simp
  moreover have "map isAssignable (evaluateCandidates rankingContext 2 A) = [True, True, False]"
    by code_simp
  ultimately show ?thesis
    using C4_evaluateCandidates_ranking[of rankingContext 2 A] by blast
qed

text \<open>
  Claim C5, as stated, puts the threshold at three: a staff member on the earliest band
  whose band has at most three staff could not be moved. With exactly three on the band
  the code reports no hard violation at all.
\<close>

theorem C5_threshold_counterexample:
  "getShift threeEarlyContext 2 1 = A
   \<and> countDayPattern threeEarlyContext 2 A \<le> 3
   \<and> \<not> hasHardViolation (checkConstraints threeEarlyContext 2 1 B)"
  by code_simp

text \<open>
  Claim C5, amended: \<open>checkConstraints\<close> reports the hard minimum-count violation of
  the earliest (latest) band exactly when the staff member's current assignment of the
  day is that band and the band has at most two staff that day, that is, when taking
  the staff member away would leave the band below its floor of two.
\<close>

theorem C5_minCount_threshold:
  "(hard MIN_COUNT_A \<in> set (checkConstraints ctx day sid newShift) \<longleftrightarrow>
      getShift ctx day sid = A \<and> countDayPattern ctx day A \<le> 2)
   \<and> (hard MIN_COUNT_J \<in> set (checkConstraints ctx day sid newShift) \<longleftrightarrow>
      getShift ctx day sid = J \<and> countDayPattern ctx day J \<le> 2)"
  using minCount_A_iff minCount_J_iff by blast

theorem C5_minCount_threshold_witness:
  "getShift twoEarlyContext 2 1 = A \<and> countDayPattern twoEarlyContext 2 A \<le> 2
   \<and> hard MIN_COUNT_A \<in> set (checkConstraints twoEarlyContext 2 1 B)"
proof -
  have "getShift twoEarlyContext 2 1 = A \<and> countDayPattern twoEarlyContext 2 A \<le> 2"
    by code_simp
  then show ?thesis
    using C5_minCount_threshold[of twoEarlyContext 2 1 B] by blast
qed

text \<open>
  Claim C6, as stated, says the check is symmetric: when the staff member who holds
  the incompatibility entry is the one already assigned, the query for the listed one
  reports the violation too. The code reads the list of the queried staff member only:
  staff 1 lists staff 2 and holds band C, and the query for staff 2 and band C reports
  nothing.
\<close>

theorem C6_symmetry_counterexample:
  "findStaff (staff listerAssignedContext) 1 = Some (exampleStaff 1 Regular [2])
   \<and> 2 \<in> set (incompatibleWith (exampleStaff 1 Regular [2]))
   \<and> cell (schedule listerAssignedContext) (getFormattedDate 2024 4 2) 1 = Some C
   \<and> checkConstraints listerAssignedContext 2 2 C = []"
  by code_simp

text \<open>
  Claim C6, amended: \<open>checkConstraints\<close> for a staff member and a shift includes the
  hard incompatibility violation exactly when the roster entry found for that staff
  member lists somebody whose cell of the day holds that shift. So if A lists B and B
  holds X, the query for A and X reports it; the query for B reports it only through
  B's own list.
\<close>

theorem C6_incompatible_own_list:
  "hard INCOMPATIBLE \<in> set (checkConstraints ctx day q X) \<longleftrightarrow>
     (\<exists>sq. findStaff (staff ctx) q = Some sq \<and>
        (\<exists>i \<in> set (incompatibleWith sq).
           cell (schedule ctx) (getFormattedDate (year ctx) (month ctx) day) i = Some X))"
  by (rule incompatible_iff)

theorem C6_incompatible_own_list_witness:
  "findStaff (staff listedAssignedContext) 1 = Some (exampleStaff 1 Regular [2])
   \<and> cell (schedule listedAssignedContext) (getFormattedDate 2024 4 2) 2 = Some C
   \<and> hard INCOMPATIBLE \<in> set (checkConstraints listedAssignedContext 2 1 C)"
proof -
  have 1: "findStaff (staff listedAssignedContext) 1 = Some (exampleStaff 1 Regular [2])"
    by code_simp
  have 2: "cell (schedule listedAssignedContext)
             (getFormattedDate (year listedAssignedContext) (month listedAssignedContext) 2) 2
           = Some C"
    by code_simp
  have 3: "2 \<in> set (incompatibleWith (exampleStaff 1 Regular [2]))"
    by code_simp
  have 4: "getFormattedDate (year listedAssignedContext) (month listedAssignedContext) 2
           = getFormattedDate 2024 4 2"
    by code_simp
  show ?thesis
    using C6_incompatible_own_list[of listedAssignedContext 2 1 C] 1 2 3 4 by auto
qed

text \<open>
  Claim C9: the incompatibility check compares the cell of each listed staff member
  with the candidate value, whatever that value is. If the roster entry found for A
  lists B and B's cell of the day holds exactly the candidate code, work band or
  leave code, then \<open>checkConstraints\<close> for A and that code includes the hard
  incompatibility violation.
\<close>

theorem C9_incompatible_any_code:
  assumes "findStaff (staff ctx) a = Some sa"
    and "b \<in> set (incompatibleWith sa)"
    and "cell (schedule ctx) (getFormattedDate (year ctx) (month ctx) day) b = Some code"
  shows "hard INCOMPATIBLE \<in> set (checkConstraints ctx day a code)"
  using assms incompatible_iff by blast

theorem C9_incompatible_any_code_witness:
  "findStaff (staff listedOffContext) 1 = Some (exampleStaff 1 Regular [2])
   \<and> 2 \<in> set (incompatibleWith (exampleStaff 1 Regular [2]))
   \<and> cell (schedule listedOffContext) (getFormattedDate 2024 4 2) 2 = Some Kyuu
   \<and> hard INCOMPATIBLE \<in> set (checkConstraints listedOffContext 2 1 Kyuu)"
proof -
  have 1: "findStaff (staff listedOffContext) 1 = Some (exampleStaff 1 Regular [2])"
    by code_simp
  have 2: "2 \<in> set (incompatibleWith (exampleStaff 1 Regular [2]))"
    by code_simp
  have 3: "cell (schedule listedOffContext)
             (getFormattedDate (year listedOffContext) (month listedOffContext) 2) 2
           = Some Kyuu"
    by code_simp
  have 4: "cell (schedule listedOffContext) (getFormattedDate 2024 4 2) 2 = Some Kyuu"
    by code_simp
  show ?thesis
    using C9_incompatible_any_code[OF 1 2 3] 1 2 4 by simp
qed

text \<open>
  Claim C10: the minimum-count check does not look at the candidate shift. If the
  staff member's current shift of the day is the earliest or the latest band and that
  band has at most two staff that day, \<open>checkConstraints\<close> reports the hard
  minimum-count violation of the band for every candidate shift, and so also when the
  candidate is the current shift itself.
\<close>

theorem C10_minCount_ignores_candidate:
  assumes "getShift ctx day sid = A \<or> getShift ctx day sid = J"
    and "countDayPattern ctx day (getShift ctx day sid) \<le> 2"
  shows "hard (if getShift ctx day sid = A then MIN_COUNT_A else MIN_COUNT_J)
           \<in> set (checkConstraints ctx day sid newShift)
         \<and> hard (if getShift ctx day sid = A then MIN_COUNT_A else MIN_COUNT_J)
           \<in> set (checkConstraints ctx day sid (getShift ctx day sid))"
  using assms minCount_A_iff minCount_J_iff by auto

theorem C10_minCount_ignores_candidate_witness:
  "getShift twoEarlyContext 2 1 = A
   \<and> countDayPattern twoEarlyContext 2 (getShift twoEarlyContext 2 1) \<le> 2
   \<and> hard MIN_COUNT_A \<in> set (checkConstraints twoEarlyContext 2 1 A)
   \<and> hard MIN_COUNT_A \<in> set (checkConstraints twoEarlyContext 2 1 Kyuu)"
proof -
  have 1: "getShift twoEarlyContext 2 1 = A" by code_simp
  have 2: "countDayPattern twoEarlyContext 2 (getShift twoEarlyContext 2 1) \<le> 2" by code_simp
  show ?thesis
    using C10_minCount_ignores_candidate[of twoEarlyContext 2 1 Kyuu] 1 2 by simp
qed

section \<open>The claims about the generator\<close>

text \<open>
  In the theorems below \<open>generate rnd ss hs y m st cur trs\<close> is the call
  \<open>new ShiftGenerator(ss, hs, y, m, st, cur, trs).generate()\<close> under the random
  source \<open>rnd\<close>; the days of the target month are \<open>1 .. getDaysInMonth y m\<close>
  and the cell of day \<open>d\<close> and staff member \<open>s\<close> in a schedule \<open>sch\<close> is
  \<open>cell sch (getFormattedDate y m d) (id_staff s)\<close>.
\<close>

text \<open>
  Claim C1 (protection of manual leave entries): for every input and random source, for
  every day of the target month and every staff member of the roster whose cell in the
  caller-supplied existing schedule holds the paid leave or the compensatory day off,
  the schedule that \<open>generate\<close> returns holds the identical value in that cell. The
  proof follows the cell through the constructor and every phase, the direct
  assignment of phase 7 (which only overwrites a cell holding band B) included.
\<close>

theorem C1_protected_leave_preserved:
  assumes "generate rnd ss hs y m st cur trs = Some (Inr out)"
    and "d \<in> {1 .. getDaysInMonth y m}" and "s \<in> set ss"
    and "cell cur (getFormattedDate y m d) (id_staff s) = Some Yuu
         \<or> cell cur (getFormattedDate y m d) (id_staff s) = Some Furi"
  shows "cell out (getFormattedDate y m d) (id_staff s)
         = cell cur (getFormattedDate y m d) (id_staff s)"
proof -
  let ?g0 = "newShiftGenerator ss hs y m st cur trs"
  let ?k = "getFormattedDate y m d"
  obtain g where out: "out = schedule_g g" and fr: "frame ?g0 g"
    using generate_frame[OF assms(1)] by blast
  obtain v where v: "cell cur ?k (id_staff s) = Some v" and pv: "v = Yuu \<or> v = Furi"
    using assms(4) by auto
  have init: "cell (schedule_g ?g0) ?k (id_staff s) = Some v"
    using newShiftGenerator_protected[OF assms(2,3) v pv] .
  have "cell (schedule_g g) ?k (id_staff s) = cell (schedule_g ?g0) ?k (id_staff s)"
    using frame_protected[OF fr] init pv by blast
  then show ?thesis using out init v by simp
qed

theorem C1_protected_leave_preserved_witness:
  "generate noRandom exampleRoster [] 2024 2 exampleSettings exampleExisting noTimeRanges
     = Some (Inr exampleGenerated)
   \<and> cell exampleExisting (getFormattedDate 2024 2 5) 1 = Some Yuu
   \<and> cell exampleGenerated (getFormattedDate 2024 2 5) 1 = Some Yuu"
proof -
  have s: "exampleStaff 1 Regular [] \<in> set exampleRoster" by (simp add: exampleRoster_def)
  have d: "(5::int) \<in> {1 .. getDaysInMonth 2024 2}" by (simp add: getDaysInMonth_example)
  have i: "id_staff (exampleStaff 1 Regular []) = 1" by (simp add: exampleStaff_def)
  have c: "cell exampleExisting (getFormattedDate 2024 2 5) 1 = Some Yuu" by code_simp
  show ?thesis
    using C1_protected_leave_preserved[OF generate_example d s] generate_example c i by simp
qed

text \<open>
  Claim C2 (completeness of the generated schedule): for every input and random source,
  in the schedule that \<open>generate\<close> returns every staff member of the roster whose
  shift type is not part-time has, for every day of the target month, a cell holding
  one of the six work bands or one of the three leave codes (so neither undefined nor
  empty).
\<close>

theorem C2_generated_schedule_complete:
  assumes "generate rnd ss hs y m st cur trs = Some (Inr out)"
    and "d \<in> {1 .. getDaysInMonth y m}" and "s \<in> set ss"
    and "shiftType s \<noteq> Part_time"
  shows "cell out (getFormattedDate y m d) (id_staff s)
         \<in> {Some A, Some B, Some C, Some D, Some E, Some J, Some Furi, Some Yuu, Some Kyuu}"
proof -
  let ?g0 = "newShiftGenerator ss hs y m st cur trs"
  obtain g9 where fr9: "frame ?g0 g9"
    and out: "out = schedule_g (finalSafetyFill (phase10_Validation g9))"
    using generate_shape[OF assms(1)] by blast
  let ?g10 = "phase10_Validation g9"
  have fr10: "frame ?g0 ?g10" using fr9 by (rule frame_phase10)
  have st: "staff_g ?g10 = ss" and dim: "daysInMonth ?g10 = getDaysInMonth y m"
    and y: "year_g ?g10 = y" and m: "month_g ?g10 = m"
    using fr10 by (simp_all add: frame_def)
  have "filled (schedule_g (finalSafetyFill ?g10)) (dateOf ?g10 d) (id_staff s)"
    using finalSafetyFill_filled[of d ?g10 s] assms(2,3,4) st dim by simp
  then have "filled out (getFormattedDate y m d) (id_staff s)"
    using out y m by (simp add: dateOf_def)
  then obtain v where "cell out (getFormattedDate y m d) (id_staff s) = Some v" and "v \<noteq> Blank"
    by (auto simp: filled_def)
  then show ?thesis by (cases v) simp_all
qed

theorem C2_generated_schedule_complete_witness:
  "generate noRandom exampleRoster [] 2024 2 exampleSettings exampleExisting noTimeRanges
     = Some (Inr exampleGenerated)
   \<and> shiftType (exampleStaff 1 Regular []) \<noteq> Part_time
   \<and> cell exampleGenerated (getFormattedDate 2024 2 4) 1 = Some Kyuu
   \<and> cell exampleGenerated (getFormattedDate 2024 2 4) 1
       \<in> {Some A, Some B, Some C, Some D, Some E, Some J, Some Furi, Some Yuu, Some Kyuu}"
proof -
  have s: "exampleStaff 1 Regular [] \<in> set exampleRoster" by (simp add: exampleRoster_def)
  have d: "(4::int) \<in> {1 .. getDaysInMonth 2024 2}" by (simp add: getDaysInMonth_example)
  have i: "id_staff (exampleStaff 1 Regular []) = 1" by (simp add: exampleStaff_def)
  have n: "shiftType (exampleStaff 1 Regular []) \<noteq> Part_time" by (simp add: exampleStaff_def)
  have c: "cell exampleGenerated (getFormattedDate 2024 2 4) 1 = Some Kyuu" by code_simp
  show ?thesis
    using C2_generated_schedule_complete[OF generate_example d s n] generate_example n c i
    by simp
qed

text \<open>
  Claim C3 (adjacency invariant of the generated schedule): for every input and every
  random source, in the schedule that \<open>generate\<close> returns, for every staff member
  \<open>s\<close> of the roster whose shift type is not part-time and every pair \<open>p < d\<close> of work
  days of the month with no work day between them (a work day is neither a Sunday nor a
  listed holiday), the pair (shift of \<open>p\<close>, shift of \<open>d\<close>) in the cells of \<open>s\<close> is none of
  (J, A), (A, A) and (J, J). The schedule is keyed by staff id and \<open>setShift\<close> resolves
  an id with \<open>staff.find\<close>, so the staff member is identified through its id: \<open>f\<close> is the
  roster entry that the lookup returns for the id of \<open>s\<close>, and it is not part-time either.
  In a roster with pairwise distinct ids \<open>f\<close> is \<open>s\<close> itself (\<open>findStaff_distinct\<close>);
  rosters that repeat an id are covered as long as the first entry of the id is not
  part-time.
\<close>

theorem C3_adjacency_invariant:
  assumes "generate rnd ss hs y m st cur trs = Some (Inr out)"
    and "s \<in> set ss" and "shiftType s \<noteq> Part_time"
    and "findStaff ss (id_staff s) = Some f" and "shiftType f \<noteq> Part_time"
    and "1 \<le> p" and "p < d" and "d \<le> getDaysInMonth y m"
    and "workDay y m hs p" and "workDay y m hs d"
    and "\<forall>e. p < e \<and> e < d \<longrightarrow> \<not> workDay y m hs e"
  shows "(orBlank (cell out (getFormattedDate y m p) (id_staff s)),
          orBlank (cell out (getFormattedDate y m d) (id_staff s)))
         \<notin> {(J, A), (A, A), (J, J)}"
  using generated_adjacent[OF assms(1) assms(4-)] by (auto simp: badPair_def)

theorem C3_adjacency_invariant_witness:
  "generate noRandom exampleRoster [] 2024 2 exampleSettings exampleExisting noTimeRanges
     = Some (Inr exampleGenerated)
   \<and> exampleStaff 1 Regular [] \<in> set exampleRoster
   \<and> shiftType (exampleStaff 1 Regular []) \<noteq> Part_time
   \<and> findStaff exampleRoster (id_staff (exampleStaff 1 Regular []))
       = Some (exampleStaff 1 Regular [])
   \<and> workDay 2024 2 [] 2 \<and> workDay 2024 2 [] 3
   \<and> (orBlank (cell exampleGenerated (getFormattedDate 2024 2 2) 1),
       orBlank (cell exampleGenerated (getFormattedDate 2024 2 3) 1)) = (J, B)
   \<and> (orBlank (cell exampleGenerated (getFormattedDate 2024 2 2) 1),
       orBlank (cell exampleGenerated (getFormattedDate 2024 2 3) 1))
       \<notin> {(J, A), (A, A), (J, J)}"
proof -
  have s: "exampleStaff 1 Regular [] \<in> set exampleRoster" by (simp add: exampleRoster_def)
  have i: "id_staff (exampleStaff 1 Regular []) = 1" by (simp add: exampleStaff_def)
  have n: "shiftType (exampleStaff 1 Regular []) \<noteq> Part_time" by (simp add: exampleStaff_def)
  have f: "findStaff exampleRoster (id_staff (exampleStaff 1 Regular []))
           = Some (exampleStaff 1 Regular [])"
    by (simp add: findStaff_def exampleRoster_def)
  have w2: "workDay 2024 2 [] 2" by code_simp
  have w3: "workDay 2024 2 [] 3" by code_simp
  have b: "\<forall>e::int. 2 < e \<and> e < 3 \<longrightarrow> \<not> workDay 2024 2 [] e" by auto
  have v: "(orBlank (cell exampleGenerated (getFormattedDate 2024 2 2) 1),
       orBlank (cell exampleGenerated (getFormattedDate 2024 2 3) 1)) = (J, B)" by code_simp
  have "(orBlank (cell exampleGenerated (getFormattedDate 2024 2 2)
                    (id_staff (exampleStaff 1 Regular []))),
         orBlank (cell exampleGenerated (getFormattedDate 2024 2 3)
                    (id_staff (exampleStaff 1 Regular []))))
        \<notin> {(J, A), (A, A), (J, J)}"
    by (rule C3_adjacency_invariant[OF generate_example s n f n _ _ _ w2 w3 b])
       (simp_all add: getDaysInMonth_example)
  then show ?thesis using generate_example s n f w2 w3 v i by simp
qed

text \<open>
  Claim C7 (totality of generation): for every input and random source \<open>generate\<close>
  returns a schedule: it neither fails to terminate nor raises (the model's result is
  \<open>None\<close> for a run that does not return and \<open>Inl\<close> for a TypeError). In
  particular the unbounded loop of the minimum-count phase, which assigns staff until
  the working headcount of the day reaches 8, returns on every day of the month from
  every state in which each roster member has a cell for each day of the month, as the
  constructor leaves it and every phase keeps it: each iteration assigns a staff member
  whose cell was empty, so the number of empty cells of the day strictly decreases.
  Minimums that cannot be met are simply left unmet in the returned schedule.
\<close>

theorem C7_generate_total:
  "(\<exists>out. generate rnd ss hs y m st cur trs = Some (Inr out))
   \<and> (wellFormed g \<longrightarrow> d \<in> {1 .. daysInMonth g}
        \<longrightarrow> (\<exists>g'. totalCountLoop d g = Some (Inr g')))"
proof
  show "\<exists>out. generate rnd ss hs y m st cur trs = Some (Inr out)"
    using generate_returns[of ss hs y m st cur trs rnd] by (auto simp: returnsWith_def)
next
  show "wellFormed g \<longrightarrow> d \<in> {1 .. daysInMonth g}
        \<longrightarrow> (\<exists>g'. totalCountLoop d g = Some (Inr g'))"
    using totalCountLoop_returns[of g d g] by (auto simp: returnsWith_def)
qed

theorem C7_generate_total_witness:
  "(\<exists>out. generate noRandom exampleRoster [] 2024 2 exampleSettings exampleExisting
            noTimeRanges = Some (Inr out))
   \<and> wellFormed (newShiftGenerator exampleRoster [] 2024 2 exampleSettings exampleExisting
                   noTimeRanges)
   \<and> (1::int) \<in> {1 .. daysInMonth (newShiftGenerator exampleRoster [] 2024 2 exampleSettings
                                     exampleExisting noTimeRanges)}
   \<and> (\<exists>g'. totalCountLoop 1 (newShiftGenerator exampleRoster [] 2024 2 exampleSettings
                                exampleExisting noTimeRanges) = Some (Inr g'))"
proof -
  let ?g = "newShiftGenerator exampleRoster [] 2024 2 exampleSettings exampleExisting noTimeRanges"
  have wf: "wellFormed ?g" by (rule newShiftGenerator_wellFormed)
  have d: "(1::int) \<in> {1 .. daysInMonth ?g}" by (simp add: getDaysInMonth_example)
  show ?thesis
    using C7_generate_total[of noRandom exampleRoster "[]" 2024 2 exampleSettings
            exampleExisting noTimeRanges ?g 1] wf d by blast
qed

end
